theory Spec2Isabelle
  imports Main "HOL-Library.Sublist" "HOL-Library.Multiset"
begin

chapter \<open>The model\<close>

section \<open>Python values\<close>

text \<open>
  A Python \<open>str\<close> is a sequence of Unicode code points, and \<open>len\<close> counts code points.
  It is modelled as a list of natural numbers, one per code point. \<open>ascii\<close> turns an
  ASCII literal into its code points; literals of the source beyond ASCII are written as
  explicit code point lists.
\<close>

type_synonym pystr = "nat list"

definition ascii :: "string \<Rightarrow> pystr" where
  "ascii s = map of_char s"

text \<open>
  A decoded JSON payload. Numbers are integers only (a float in a payload is outside the
  model); a dict is an association list in which the first entry of a key counts.
\<close>

datatype json =
    JNull
  | JBool bool
  | JInt int
  | JStr pystr
  | JList "json list"
  | JDict "(pystr \<times> json) list"

text \<open>
  An exception: its class, as far as an \<open>except\<close> clause of the source tells classes
  apart, and \<open>str(e)\<close>.
\<close>

datatype exn_class = ValueError | ImportError | AttributeError | TypeError | KeyError | OtherException

datatype exn = Exn exn_class pystr

fun exn_str :: "exn \<Rightarrow> pystr" where
  "exn_str (Exn c m) = m"

section \<open>Results of the fetchers\<close>

text \<open>
  Every fetcher returns a dict \<open>{'success': True, <key>: <items>}\<close> or
  \<open>{'success': False, 'error': <message>}\<close>. \<open>Success k xs\<close> is the first, with the key
  of the item list (\<open>videos\<close>, \<open>trending\<close>, \<open>posts\<close>, \<open>dynamics\<close>, \<open>statuses\<close>,
  \<open>tweets\<close>) and the items; \<open>Failure m\<close> is the second. \<open>ok r\<close> is
  \<open>r.get('success')\<close>.
\<close>

datatype fetch_result = Success pystr "json list" | Failure pystr

fun ok :: "fetch_result \<Rightarrow> bool" where
  "ok (Success k xs) = True"
| "ok (Failure m) = False"

section \<open>The orchestrators\<close>

text \<open>
  \<open>asyncio.gather(..., return_exceptions=True)\<close> gives, for each branch in the order the
  branches were passed, the value the branch returned or the exception it raised.
\<close>

datatype 'a outcome = Returned 'a | Raised exn

text \<open>
  The conversion both orchestrators apply to each gathered value:
  \<open>{'success': False, 'error': str(x)} if isinstance(x, Exception) else x\<close>.
\<close>

fun as_result :: "fetch_result outcome \<Rightarrow> fetch_result" where
  "as_result (Returned r) = r"
| "as_result (Raised e) = Failure (exn_str e)"

text \<open>
  The envelope: \<open>success\<close>, the optional \<open>error\<close> and \<open>region\<close> entries, and the
  per-platform entries in the order the dict literal lists them.
\<close>

record envelope =
  success :: bool
  error :: "pystr option"
  region :: "pystr option"
  platforms :: "(pystr \<times> fetch_result) list"

definition no_trending_content :: pystr where
  "no_trending_content = [26080, 27861, 33719, 21462, 20219, 20309, 28909, 38376, 20869, 23481]"

text \<open>
  \<open>fetch_public_content\<close>, from the gathered values on: \<open>china_region\<close> is the value of
  \<open>is_china_region()\<close>, \<open>first\<close> and \<open>second\<close> are what \<open>gather\<close> gave for the two
  fetchers of the region (Bilibili and Weibo, or Reddit and Twitter).
\<close>

definition fetch_public_content ::
  "bool \<Rightarrow> fetch_result outcome \<Rightarrow> fetch_result outcome \<Rightarrow> envelope" where
  "fetch_public_content china_region first second =
     (if china_region then
        (let bilibili_result = as_result first;
             weibo_result = as_result second
         in if \<not> ok bilibili_result \<and> \<not> ok weibo_result
            then \<lparr>success = False, error = Some no_trending_content,
                   region = Some (ascii ''china''),
                   platforms = [(ascii ''bilibili'', bilibili_result),
                                (ascii ''weibo'', weibo_result)]\<rparr>
            else \<lparr>success = True, error = None, region = Some (ascii ''china''),
                   platforms = [(ascii ''bilibili'', bilibili_result),
                                (ascii ''weibo'', weibo_result)]\<rparr>)
      else
        (let reddit_result = as_result first;
             twitter_result = as_result second
         in if \<not> ok reddit_result \<and> \<not> ok twitter_result
            then \<lparr>success = False, error = Some no_trending_content,
                   region = Some (ascii ''non-china''),
                   platforms = [(ascii ''reddit'', reddit_result),
                                (ascii ''twitter'', twitter_result)]\<rparr>
            else \<lparr>success = True, error = None, region = Some (ascii ''non-china''),
                   platforms = [(ascii ''reddit'', reddit_result),
                                (ascii ''twitter'', twitter_result)]\<rparr>))"

text \<open>\<open>fetch_personal_dynamics\<close>, from the gathered values on.\<close>

definition fetch_personal_dynamics ::
  "bool \<Rightarrow> fetch_result outcome \<Rightarrow> fetch_result outcome \<Rightarrow> envelope" where
  "fetch_personal_dynamics china_region first second =
     (if china_region then
        (let b_dyn = as_result first;
             w_dyn = as_result second
         in \<lparr>success = True, error = None, region = Some (ascii ''china''),
              platforms = [(ascii ''bilibili_dynamic'', b_dyn),
                           (ascii ''weibo_dynamic'', w_dyn)]\<rparr>)
      else
        (let r_dyn = as_result first;
             t_dyn = as_result second
         in \<lparr>success = True, error = None, region = Some (ascii ''non-china''),
              platforms = [(ascii ''reddit_dynamic'', r_dyn),
                           (ascii ''twitter_dynamic'', t_dyn)]\<rparr>))"

section \<open>String operations\<close>

text \<open>
  \<open>str.lower()\<close>, code point by code point. The capital letters of ASCII go to their
  small letters; U+0130 goes to \<open>i\<close> followed by U+0307 and U+212A (the Kelvin sign) to
  \<open>k\<close>, the only code points beyond ASCII whose lower case holds an ASCII letter. Every
  other code point stands for itself: lower-casing moves it, if at all, to code points
  beyond ASCII, and nothing below compares such a code point with a literal.
\<close>

definition lower_cp :: "nat \<Rightarrow> pystr" where
  "lower_cp c =
     (if 65 \<le> c \<and> c \<le> 90 then [c + 32]
      else if c = 304 then [105, 775]
      else if c = 8490 then [107]
      else [c])"

definition str_lower :: "pystr \<Rightarrow> pystr" where
  "str_lower s = concat (map lower_cp s)"

text \<open>\<open>s.replace(a, b)\<close> for one-character \<open>a\<close> and \<open>b\<close>.\<close>

definition replace_char :: "nat \<Rightarrow> nat \<Rightarrow> pystr \<Rightarrow> pystr" where
  "replace_char a b s = map (\<lambda>c. if c = a then b else c) s"

text \<open>\<open>s.startswith(p)\<close> and \<open>p in s\<close>.\<close>

definition startswith :: "pystr \<Rightarrow> pystr \<Rightarrow> bool" where
  "startswith s p = (take (length p) s = p)"

fun contains :: "pystr \<Rightarrow> pystr \<Rightarrow> bool" where
  "contains p [] = (p = [])"
| "contains p (c # cs) = (startswith (c # cs) p \<or> contains p cs)"

text \<open>
  \<open>xs[:n]\<close>: the first \<open>n\<close> elements, and for a negative \<open>n\<close> all but the last
  \<open>-n\<close>.
\<close>

definition py_take :: "int \<Rightarrow> 'a list \<Rightarrow> 'a list" where
  "py_take n xs = (if 0 \<le> n then take (nat n) xs else take (length xs - nat (- n)) xs)"

section \<open>Region selection\<close>

text \<open>
  \<open>is_china_region\<close> (the definition the module falls back to) reads the locale twice:
  \<open>locale.getlocale()[0]\<close>, then \<open>locale.getdefaultlocale()[0]\<close>. Each read gives a
  locale name or \<open>None\<close>, or raises.
\<close>

type_synonym locale_read = "pystr option outcome"

definition mainland_china_locales :: "pystr list" where
  "mainland_china_locales =
     [ascii ''zh_cn'', ascii ''chinese_china'', ascii ''chinese_simplified_china'']"

definition normalize_locale :: "pystr \<Rightarrow> pystr" where
  "normalize_locale loc =
     (if loc = [] then []
      else let loc = str_lower loc;
               loc = replace_char 45 95 loc
           in if 46 \<in> set loc then takeWhile (\<lambda>c. c \<noteq> 46) loc else loc)"

definition check_locale :: "pystr \<Rightarrow> bool" where
  "check_locale loc =
     (let normalized = normalize_locale loc
      in if normalized = [] then False
         else if normalized \<in> set mainland_china_locales then True
         else if startswith normalized (ascii ''zh_cn'') then True
         else if contains (ascii ''chinese'') normalized \<and> contains (ascii ''china'') normalized
           then True
         else False)"

text \<open>
  The body of one \<open>try\<close> block: \<open>Inr True\<close> when it reaches \<open>return True\<close>, \<open>Inr False\<close>
  when it falls through, \<open>Inl e\<close> when the read raises \<open>e\<close>.
\<close>

definition try_locale :: "locale_read \<Rightarrow> exn + bool" where
  "try_locale r =
     (case r of
        Raised e \<Rightarrow> Inl e
      | Returned None \<Rightarrow> Inr False
      | Returned (Some loc) \<Rightarrow> Inr (loc \<noteq> [] \<and> check_locale loc))"

text \<open>
  The handlers of the block: \<open>except ValueError: pass\<close> and
  \<open>except Exception as e: logger.debug(...)\<close>. Both go on after the block.
\<close>

fun locale_handlers :: "exn + bool \<Rightarrow> exn + bool" where
  "locale_handlers (Inr b) = Inr b"
| "locale_handlers (Inl (Exn ValueError m)) = Inr False"
| "locale_handlers (Inl (Exn c m)) = Inr False"

definition is_china_region :: "locale_read \<Rightarrow> locale_read \<Rightarrow> exn + bool" where
  "is_china_region system_locale default_locale =
     (case locale_handlers (try_locale system_locale) of
        Inl e \<Rightarrow> Inl e
      | Inr True \<Rightarrow> Inr True
      | Inr False \<Rightarrow>
          (case locale_handlers (try_locale default_locale) of
             Inl e \<Rightarrow> Inl e
           | Inr True \<Rightarrow> Inr True
           | Inr False \<Rightarrow> Inr False))"

text \<open>A read that detects nothing: it raised, or gave \<open>None\<close> or the empty name.\<close>

fun read_failed :: "locale_read \<Rightarrow> bool" where
  "read_failed (Raised e) = True"
| "read_failed (Returned None) = True"
| "read_failed (Returned (Some loc)) = (loc = [])"

section \<open>The context search: gathering and merging\<close>

text \<open>
  One parsed search hit: the dict \<open>{'title', 'abstract', 'url'}\<close> that
  \<open>parse_google_results\<close> and \<open>parse_baidu_results\<close> build, each value a \<open>str\<close>.
\<close>

record search_item =
  title :: pystr
  abstract :: pystr
  url :: pystr

text \<open>
  What a search function returns: \<open>{'success': True, 'query': q, 'results': rs}\<close> or
  \<open>{'success': False, 'error': m}\<close>.
\<close>

datatype search_result = SearchOk pystr "search_item list" | SearchFail pystr

text \<open>
  The branches of a \<open>gather\<close> settle in some order. \<open>settled\<close> lists, in the order of
  settling, the position of each branch among the awaitables and what it settled with;
  \<open>gather\<close> gives the values in the order of the awaitables.
\<close>

definition gather :: "(nat \<times> 'a) list \<Rightarrow> 'a list" where
  "gather settled = map snd (sort_key fst settled)"

text \<open>
  The loop over \<open>zip(valid_queries, gather_results)\<close>: the hits of every branch that
  returned a dict with \<open>success\<close> and a non-empty \<open>results\<close>, and the queries of those
  branches.
\<close>

fun branch_hits :: "search_result outcome \<Rightarrow> search_item list" where
  "branch_hits (Returned (SearchOk q rs)) = rs"
| "branch_hits (Returned (SearchFail m)) = []"
| "branch_hits (Raised e) = []"

fun collect :: "(pystr \<times> search_result outcome) list \<Rightarrow> search_item list \<times> pystr list" where
  "collect [] = ([], [])"
| "collect ((query, search_result) # rest) =
     (let (all_results, successful_queries) = collect rest
      in if branch_hits search_result \<noteq> []
         then (branch_hits search_result @ all_results, query # successful_queries)
         else (all_results, successful_queries))"

text \<open>\<open>result.get('url') or result.get('title')\<close>.\<close>

definition dedup_key :: "search_item \<Rightarrow> pystr" where
  "dedup_key r = (if url r \<noteq> [] then url r else title r)"

text \<open>The loop that fills \<open>unique_results\<close>, with the set \<open>seen_keys\<close> so far.\<close>

fun dedup :: "pystr set \<Rightarrow> search_item list \<Rightarrow> search_item list" where
  "dedup seen_keys [] = []"
| "dedup seen_keys (r # rs) =
     (let key = dedup_key r
      in if key \<noteq> [] \<and> key \<notin> seen_keys
         then r # dedup (insert key seen_keys) rs
         else dedup seen_keys rs)"

definition unique_results :: "int \<Rightarrow> search_item list \<Rightarrow> search_item list" where
  "unique_results limit all_results = py_take (limit * 2) (dedup {} all_results)"

section \<open>Regular expressions and title cleaning\<close>

text \<open>
  The code points \<open>str.isspace()\<close> holds for; \<open>\\s\<close> of \<open>re\<close>, \<open>str.split()\<close> and
  \<open>str.strip()\<close> use the same set.
\<close>

definition is_space :: "nat \<Rightarrow> bool" where
  "is_space c =
     ((9 \<le> c \<and> c \<le> 13) \<or> (28 \<le> c \<and> c \<le> 32) \<or> c = 133 \<or> c = 160 \<or> c = 5760
      \<or> (8192 \<le> c \<and> c \<le> 8202) \<or> c = 8232 \<or> c = 8233 \<or> c = 8239 \<or> c = 8287
      \<or> c = 12288)"

text \<open>
  The decimal digits of Unicode (category Nd, Unicode 14.0 as in Python 3.11), which
  \<open>\\d\<close> matches: blocks of ten code points, the digit 0 first.
\<close>

definition digit_ranges :: "(nat \<times> nat) list" where
  "digit_ranges =
     [(48, 57), (1632, 1641), (1776, 1785), (1984, 1993), (2406, 2415), (2534, 2543),
      (2662, 2671), (2790, 2799), (2918, 2927), (3046, 3055), (3174, 3183), (3302, 3311),
      (3430, 3439), (3558, 3567), (3664, 3673), (3792, 3801), (3872, 3881), (4160, 4169),
      (4240, 4249), (6112, 6121), (6160, 6169), (6470, 6479), (6608, 6617), (6784, 6793),
      (6800, 6809), (6992, 7001), (7088, 7097), (7232, 7241), (7248, 7257), (42528, 42537),
      (43216, 43225), (43264, 43273), (43472, 43481), (43504, 43513), (43600, 43609),
      (44016, 44025), (65296, 65305), (66720, 66729), (68912, 68921), (69734, 69743),
      (69872, 69881), (69942, 69951), (70096, 70105), (70384, 70393), (70736, 70745),
      (70864, 70873), (71248, 71257), (71360, 71369), (71472, 71481), (71904, 71913),
      (72016, 72025), (72784, 72793), (73040, 73049), (73120, 73129), (92768, 92777),
      (92864, 92873), (93008, 93017), (120782, 120831), (123200, 123209), (123632, 123641),
      (125264, 125273), (130032, 130041)]"

definition is_digit :: "nat \<Rightarrow> bool" where
  "is_digit c = list_ex (\<lambda>(lo, hi). lo \<le> c \<and> c \<le> hi) digit_ranges"

text \<open>
  The code points a pattern character matches under \<open>re.IGNORECASE\<close>: for a letter of
  ASCII its two cases and the code points Unicode folds onto them (U+0130 and U+0131 onto
  \<open>i\<close>, U+212A onto \<open>k\<close>, U+017F onto \<open>s\<close>); the other pattern characters of the
  source have no case.
\<close>

definition case_variants :: "nat \<Rightarrow> nat list" where
  "case_variants p =
     (let l = (if 65 \<le> p \<and> p \<le> 90 then p + 32 else p)
      in if 97 \<le> l \<and> l \<le> 122
         then [l - 32, l] @ (if l = 105 then [304, 305] else if l = 107 then [8490]
                             else if l = 115 then [383] else [])
         else [p])"

definition ignorecase :: "nat \<Rightarrow> nat \<Rightarrow> bool" where
  "ignorecase p c = (c \<in> set (case_variants p))"

text \<open>
  The regular expressions of the source: one code point of a class, the empty word,
  sequence, ordered alternative, the greedy and the lazy star of a class, \<open>^\<close> and
  \<open>$\<close>.
\<close>

datatype regex =
    Chr "nat \<Rightarrow> bool"
  | Eps
  | Seq regex regex
  | Alt regex regex
  | Star "nat \<Rightarrow> bool"
  | Lazy "nat \<Rightarrow> bool"
  | Bol
  | Eol

text \<open>
  \<open>rmatch r b s\<close> lists the lengths of the matches of \<open>r\<close> at the start of \<open>s\<close>, in
  the order in which the backtracking matcher of \<open>re\<close> tries them; \<open>b\<close> says that \<open>s\<close>
  is the whole subject (position 0), where \<open>^\<close> matches. \<open>$\<close> matches at the end and
  before a final newline.
\<close>

fun rmatch :: "regex \<Rightarrow> bool \<Rightarrow> pystr \<Rightarrow> nat list" where
  "rmatch (Chr p) b s = (case s of [] \<Rightarrow> [] | c # cs \<Rightarrow> if p c then [1] else [])"
| "rmatch Eps b s = [0]"
| "rmatch (Seq r1 r2) b s =
     concat (map (\<lambda>n. map (\<lambda>m. n + m) (rmatch r2 (b \<and> n = 0) (drop n s))) (rmatch r1 b s))"
| "rmatch (Alt r1 r2) b s = rmatch r1 b s @ rmatch r2 b s"
| "rmatch (Star p) b s = rev [0..<Suc (length (takeWhile p s))]"
| "rmatch (Lazy p) b s = [0..<Suc (length (takeWhile p s))]"
| "rmatch Bol b s = (if b then [0] else [])"
| "rmatch Eol b s = (if s = [] \<or> s = [10] then [0] else [])"

text \<open>
  \<open>re.search\<close>: the leftmost position with a match, with the first match there.
\<close>

fun re_search :: "regex \<Rightarrow> bool \<Rightarrow> pystr \<Rightarrow> (nat \<times> nat) option" where
  "re_search r b [] = (if rmatch r b [] = [] then None else Some (0, hd (rmatch r b [])))"
| "re_search r b (c # cs) =
     (if rmatch r b (c # cs) = []
      then map_option (\<lambda>(i, n). (Suc i, n)) (re_search r False cs)
      else Some (0, hd (rmatch r b (c # cs))))"

text \<open>
  \<open>re.sub(r, repl, s)\<close> for a constant \<open>repl\<close>. No pattern of the source matches the
  empty word.
\<close>

function re_sub :: "regex \<Rightarrow> pystr \<Rightarrow> bool \<Rightarrow> pystr \<Rightarrow> pystr" where
  "re_sub r repl b [] = (if rmatch r b [] = [] then [] else repl)"
| "re_sub r repl b (c # cs) =
     (if rmatch r b (c # cs) = [] then c # re_sub r repl False cs
      else if hd (rmatch r b (c # cs)) = 0 then repl @ c # re_sub r repl False cs
      else repl @ re_sub r repl False (drop (hd (rmatch r b (c # cs))) (c # cs)))"
  by pat_completeness auto
termination
  by (relation "measure (\<lambda>(r, repl, b, s). length s)") auto

fun seqs :: "regex list \<Rightarrow> regex" where
  "seqs [] = Eps"
| "seqs (r # rs) = Seq r (seqs rs)"

fun alts :: "regex list \<Rightarrow> regex" where
  "alts [] = Chr (\<lambda>c. False)"
| "alts [r] = r"
| "alts (r # rs) = Alt r (alts rs)"

definition lit :: "pystr \<Rightarrow> regex" where
  "lit s = seqs (map (\<lambda>p. Chr (\<lambda>c. c = p)) s)"

definition lit_i :: "pystr \<Rightarrow> regex" where
  "lit_i s = seqs (map (\<lambda>p. Chr (ignorecase p)) s)"

definition is_dash :: "nat \<Rightarrow> bool" where
  "is_dash c = (c = 45 \<or> c = 8211 \<or> c = 8212)"

definition any_char :: "nat \<Rightarrow> bool" where
  "any_char c = (c \<noteq> 10)"

text \<open>
  The six patterns of the shape \<open>\\s*[-\<dots>]\\s*(name|\<dots>).*$\<close>, with the hyphen, the en
  dash and the em dash, and the seven of the shape \<open>\\.ext\\s*$\<close>.
\<close>

definition app_suffix :: "regex list \<Rightarrow> regex" where
  "app_suffix names = seqs [Star is_space, Chr is_dash, Star is_space, alts names, Star any_char, Eol]"

definition dot_suffix :: "regex \<Rightarrow> regex" where
  "dot_suffix ext = seqs [Chr (\<lambda>c. c = 46), ext, Star is_space, Eol]"

text \<open>\<open>patterns_to_remove\<close>, in the order of the source.\<close>

definition patterns_to_remove :: "regex list" where
  "patterns_to_remove =
     [app_suffix [lit_i (ascii ''Google Chrome''), lit_i (ascii ''Mozilla Firefox''),
                  lit_i (ascii ''Microsoft Edge''), lit_i (ascii ''Opera''),
                  lit_i (ascii ''Safari''), lit_i (ascii ''Brave'')],
      app_suffix [lit_i (ascii ''Visual Studio Code''), lit_i (ascii ''VS Code''),
                  lit_i (ascii ''VSCode'')],
      app_suffix [lit_i [35760, 20107, 26412],
                  Seq (lit_i (ascii ''Notepad'')) (Star (\<lambda>c. c = 43)),
                  lit_i (ascii ''Sublime Text''), lit_i (ascii ''Atom'')],
      app_suffix [lit_i (ascii ''Microsoft Word''), lit_i (ascii ''Excel''),
                  lit_i (ascii ''PowerPoint'')],
      app_suffix [lit_i (ascii ''QQ'' @ [38899, 20048]), lit_i [32593, 26131, 20113, 38899, 20048],
                  lit_i [37239, 29399, 38899, 20048], lit_i (ascii ''Spotify'')],
      app_suffix [lit_i [21716, 21737, 21716, 21737], lit_i (ascii ''bilibili''),
                  lit_i (ascii ''YouTube''), lit_i [20248, 37239], lit_i [29233, 22855, 33402],
                  lit_i [33150, 35759, 35270, 39057]],
      seqs [Star is_space, Chr is_dash, Star is_space, Chr is_digit, Star is_digit,
            Star is_space, Eol],
      seqs [Bol, Chr (\<lambda>c. c = 42), Star is_space],
      seqs [Star is_space, Chr (\<lambda>c. c = 91), Lazy any_char, Chr (\<lambda>c. c = 93),
            Star is_space, Eol],
      seqs [Star is_space, Chr (\<lambda>c. c = 40), Lazy any_char, Chr (\<lambda>c. c = 41),
            Star is_space, Eol],
      seqs [lit_i (ascii ''http''), Alt (lit_i (ascii ''s'')) Eps, lit_i (ascii ''://''),
            Chr (\<lambda>c. \<not> is_space c), Star (\<lambda>c. \<not> is_space c)],
      seqs [lit_i (ascii ''www.''), Chr (\<lambda>c. \<not> is_space c), Star (\<lambda>c. \<not> is_space c)],
      dot_suffix (lit_i (ascii ''py'')),
      dot_suffix (lit_i (ascii ''js'')),
      dot_suffix (Seq (lit_i (ascii ''htm'')) (Alt (lit_i (ascii ''l'')) Eps)),
      dot_suffix (lit_i (ascii ''css'')),
      dot_suffix (lit_i (ascii ''md'')),
      dot_suffix (lit_i (ascii ''txt'')),
      dot_suffix (lit_i (ascii ''json''))]"

text \<open>
  \<open>s.split()\<close>: the scan keeps the word read so far. \<open>' '.join(ws)\<close> and
  \<open>s.strip()\<close>.
\<close>

fun split_scan :: "pystr \<Rightarrow> pystr \<Rightarrow> pystr list" where
  "split_scan w [] = (if w = [] then [] else [w])"
| "split_scan w (c # cs) =
     (if is_space c then (if w = [] then split_scan [] cs else w # split_scan [] cs)
      else split_scan (w @ [c]) cs)"

definition str_split :: "pystr \<Rightarrow> pystr list" where
  "str_split s = split_scan [] s"

fun join_space :: "pystr list \<Rightarrow> pystr" where
  "join_space [] = []"
| "join_space [w] = w"
| "join_space (w # ws) = w @ 32 # join_space ws"

definition str_strip :: "pystr \<Rightarrow> pystr" where
  "str_strip s = rev (dropWhile is_space (rev (dropWhile is_space s)))"

text \<open>
  \<open>re.split(r'\\s*[-\<dots>|]\\s*', title)[0]\<close>: the part before the first separator, the
  whole title when there is none.
\<close>

definition title_separator :: regex where
  "title_separator =
     seqs [Star is_space, Chr (\<lambda>c. is_dash c \<or> c = 124), Star is_space]"

definition first_part :: "regex \<Rightarrow> pystr \<Rightarrow> pystr" where
  "first_part r s = (case re_search r True s of None \<Rightarrow> s | Some (i, n) \<Rightarrow> take i s)"

definition clean_window_title :: "pystr \<Rightarrow> pystr" where
  "clean_window_title window_title =
     (if window_title = [] then []
      else let cleaned = foldl (\<lambda>cleaned pattern. re_sub pattern [] True cleaned) window_title
                           patterns_to_remove;
               cleaned = join_space (str_split cleaned);
               cleaned = (if length cleaned < 3
                          then (let part = first_part title_separator window_title
                                in if 3 \<le> length part then str_strip part else cleaned)
                          else cleaned)
           in take 100 cleaned)"


section \<open>Query generation\<close>

text \<open>\<open>s.split(sep)\<close> for a one-character separator: empty parts are kept.\<close>

fun split_on_scan :: "nat \<Rightarrow> pystr \<Rightarrow> pystr \<Rightarrow> pystr list" where
  "split_on_scan sep w [] = [w]"
| "split_on_scan sep w (c # cs) =
     (if c = sep then w # split_on_scan sep [] cs else split_on_scan sep (w @ [c]) cs)"

definition split_on :: "nat \<Rightarrow> pystr \<Rightarrow> pystr list" where
  "split_on sep s = split_on_scan sep [] s"

text \<open>\<open>s.strip(chars)\<close>.\<close>

definition strip_chars :: "pystr \<Rightarrow> pystr \<Rightarrow> pystr" where
  "strip_chars chars s =
     rev (dropWhile (\<lambda>c. c \<in> set chars) (rev (dropWhile (\<lambda>c. c \<in> set chars) s)))"

text \<open>
  The clean-up of one line of the assistant's reply: \<open>strip()\<close>, removal of a leading
  numbering (the pattern \<open>^[\\d\\.\\-\\*\\)\\]\<dots>]+\\s*\<close>, the last character of the class being
  U+3011), and \<open>strip\<close> of ASCII and full-width punctuation.
\<close>

definition is_numbering :: "nat \<Rightarrow> bool" where
  "is_numbering c = (is_digit c \<or> c \<in> set [46, 45, 42, 41, 93, 12305])"

definition numbering_prefix :: regex where
  "numbering_prefix = seqs [Bol, Chr is_numbering, Star is_numbering, Star is_space]"

definition clean_line :: "pystr \<Rightarrow> pystr" where
  "clean_line line =
     strip_chars [46, 44, 59, 58, 65292, 12290, 65307, 65306]
       (re_sub numbering_prefix [] True (str_strip line))"

text \<open>The loop over the lines: it stops at three queries.\<close>

fun collect_queries :: "pystr list \<Rightarrow> pystr list \<Rightarrow> pystr list" where
  "collect_queries queries [] = queries"
| "collect_queries queries (line # lines) =
     (let line = clean_line line
      in if line \<noteq> [] \<and> 2 \<le> length line
         then (let queries = queries @ [line]
               in if 3 \<le> length queries then queries else collect_queries queries lines)
         else collect_queries queries lines)"

definition reply_queries :: "pystr \<Rightarrow> pystr list" where
  "reply_queries content = collect_queries [] (split_on 10 (str_strip content))"

text \<open>\<open>while len(queries) < 3 and clean_title: queries.append(clean_title)\<close>.\<close>

function pad_queries :: "pystr list \<Rightarrow> pystr \<Rightarrow> pystr list" where
  "pad_queries queries clean_title =
     (if length queries < 3 \<and> clean_title \<noteq> []
      then pad_queries (queries @ [clean_title]) clean_title
      else queries)"
  by pat_completeness auto
termination
  by (relation "measure (\<lambda>(queries, clean_title). 3 - length queries)") auto

text \<open>
  \<open>generate_diverse_queries\<close>. The call of the assistant (configuration, client and
  request, all inside the \<open>try\<close>) gives the text of the reply or raises.
\<close>

definition generate_diverse_queries :: "pystr outcome \<Rightarrow> pystr \<Rightarrow> pystr list" where
  "generate_diverse_queries response window_title =
     (case response of
        Raised e \<Rightarrow>
          (let clean_title = clean_window_title window_title
           in [clean_title, clean_title, clean_title])
      | Returned content \<Rightarrow>
          (let queries = reply_queries content;
               queries = (if length queries < 3
                          then pad_queries queries (clean_window_title window_title)
                          else queries)
           in take 3 queries))"

text \<open>
  The assistant call fails: it raises (a timeout is an exception), or its reply has fewer
  than three usable lines.
\<close>

fun assistant_failed :: "pystr outcome \<Rightarrow> bool" where
  "assistant_failed (Raised e) = True"
| "assistant_failed (Returned content) = (length (reply_queries content) < 3)"

section \<open>The context-search pipeline\<close>

text \<open>
  \<open>get_active_window_title(include_raw=True)\<close>: the active window's title, cut to 30
  characters for display, with the raw title; \<open>None\<close> when there is no window to read
  (another system, no module, no active window, an exception).
\<close>

definition get_active_window_title :: "pystr option outcome \<Rightarrow> (pystr \<times> pystr) option" where
  "get_active_window_title active_window =
     (case active_window of
        Raised e \<Rightarrow> None
      | Returned None \<Rightarrow> None
      | Returned (Some raw_title) \<Rightarrow>
          Some (if 30 < length raw_title then take 30 raw_title @ ascii ''...'' else raw_title,
                raw_title))"

text \<open>
  The result of the pipeline: the failure dict with its error and, where the source gives
  them, \<open>window_title\<close> and \<open>search_queries\<close>; or the success dict.
\<close>

datatype context_result =
    ContextFailure pystr "pystr option" "pystr list option"
  | ContextSuccess pystr "pystr list" "search_item list" pystr

definition no_window_title :: pystr where
  "no_window_title =
     [26080, 27861, 33719, 21462, 24403, 21069, 27963, 36291, 31383, 21475, 26631, 39064]"

definition no_valid_keywords :: pystr where
  "no_valid_keywords =
     [26080, 27861, 25552, 21462, 26377, 25928, 25628, 32034, 20851, 38190, 35789]"

definition no_search_results :: pystr where
  "no_search_results =
     [25152, 26377, 26597, 35810, 22343, 26410, 33719, 24471, 25628, 32034, 32467, 26524]"

text \<open>
  \<open>fetch_window_context_content\<close>. \<open>response\<close> is what the assistant call gives,
  \<open>settled\<close> what the search branches of the valid queries settle with, in the order of
  settling.
\<close>

definition fetch_window_context_content ::
  "int \<Rightarrow> bool \<Rightarrow> pystr option outcome \<Rightarrow> pystr outcome
     \<Rightarrow> (nat \<times> search_result outcome) list \<Rightarrow> context_result" where
  "fetch_window_context_content limit china_region active_window response settled =
     (case get_active_window_title active_window of
        None \<Rightarrow> ContextFailure no_window_title None None
      | Some (sanitized_title, raw) \<Rightarrow>
          (let search_queries = generate_diverse_queries response (clean_window_title raw)
           in if search_queries = [] \<or> list_all (\<lambda>q. q = [] \<or> length q < 2) search_queries
              then ContextFailure no_valid_keywords (Some sanitized_title) None
              else
                (let valid_queries = filter (\<lambda>q. q \<noteq> [] \<and> 2 \<le> length q) search_queries
                 in if valid_queries = []
                    then ContextFailure no_valid_keywords (Some sanitized_title) None
                    else
                      (let gather_results = gather settled;
                           (all_results, successful_queries) =
                              collect (zip valid_queries gather_results);
                           unique = unique_results limit all_results
                       in if unique = []
                          then ContextFailure no_search_results (Some sanitized_title)
                                 (Some search_queries)
                          else ContextSuccess sanitized_title successful_queries unique
                                 (if china_region then ascii ''china''
                                  else ascii ''non-china'')))))"

section \<open>Clean titles\<close>

text \<open>
  A title from which \<open>clean_window_title\<close> removes nothing: no pattern of
  \<open>patterns_to_remove\<close> matches anywhere in it, \<open>' '.join(s.split())\<close> has no white space
  to drop (none at either end, and inside only single blanks), and the cut to 100
  characters drops nothing.
\<close>

fun single_spaced :: "pystr \<Rightarrow> bool" where
  "single_spaced [] = True"
| "single_spaced [c] = (\<not> is_space c)"
| "single_spaced (c # d # cs) =
     ((\<not> is_space c \<or> (c = 32 \<and> \<not> is_space d)) \<and> single_spaced (d # cs))"

definition ws_normal :: "pystr \<Rightarrow> bool" where
  "ws_normal s = (case s of [] \<Rightarrow> True | c # cs \<Rightarrow> \<not> is_space c \<and> single_spaced s)"

definition is_clean :: "pystr \<Rightarrow> bool" where
  "is_clean s =
     (list_all (\<lambda>pattern. re_search pattern True s = None) patterns_to_remove
      \<and> ws_normal s \<and> length s \<le> 100)"

text \<open>
  The check of the pipeline on the queries: it stops with the error
  \<open>no_valid_keywords\<close> when no query has two characters.
\<close>

definition no_valid_query :: "pystr list \<Rightarrow> bool" where
  "no_valid_query search_queries = list_all (\<lambda>q. length q < 2) search_queries"

section \<open>Python operations on decoded payloads\<close>

text \<open>
  Library functions that the model does not define: \<open>str()\<close> of a list or a dict,
  \<open>f"{a / b:.1f}"\<close> for integers (floating point), \<open>urllib.parse.quote\<close>,
  \<open>json.loads\<close>, and the class \<open>\\w\<close> of \<open>re\<close>. Every fetcher takes them as the record
  \<open>L\<close>; the properties hold for every such record.
\<close>

record lib =
  repr :: "json \<Rightarrow> pystr"
  format_1f :: "int \<Rightarrow> int \<Rightarrow> pystr"
  quote :: "json \<Rightarrow> exn + pystr"
  json_loads :: "pystr \<Rightarrow> exn + json"
  is_word :: "nat \<Rightarrow> bool"

text \<open>Truth value of a payload value, and \<open>a or b\<close>.\<close>

fun truthy :: "json \<Rightarrow> bool" where
  "truthy JNull = False"
| "truthy (JBool b) = b"
| "truthy (JInt n) = (n \<noteq> 0)"
| "truthy (JStr s) = (s \<noteq> [])"
| "truthy (JList xs) = (xs \<noteq> [])"
| "truthy (JDict kvs) = (kvs \<noteq> [])"

definition py_or :: "json \<Rightarrow> json \<Rightarrow> json" where
  "py_or a b = (if truthy a then a else b)"

text \<open>\<open>v == n\<close> for an integer literal \<open>n\<close>: \<open>True\<close> equals 1 and \<open>False\<close> equals 0.\<close>

fun eq_int :: "json \<Rightarrow> int \<Rightarrow> bool" where
  "eq_int (JInt m) n = (m = n)"
| "eq_int (JBool b) n = ((if b then 1 else 0) = n)"
| "eq_int v n = False"

fun type_name :: "json \<Rightarrow> pystr" where
  "type_name JNull = ascii ''NoneType''"
| "type_name (JBool b) = ascii ''bool''"
| "type_name (JInt n) = ascii ''int''"
| "type_name (JStr s) = ascii ''str''"
| "type_name (JList xs) = ascii ''list''"
| "type_name (JDict kvs) = ascii ''dict''"

text \<open>
  \<open>d.get(k, default)\<close>: on a dict the value or the default, on any other value an
  \<open>AttributeError\<close>. \<open>lookup\<close> is the same on the entries of a dict.
\<close>

definition lookup :: "(pystr \<times> json) list \<Rightarrow> pystr \<Rightarrow> json \<Rightarrow> json" where
  "lookup kvs k dflt = (case map_of kvs k of None \<Rightarrow> dflt | Some v \<Rightarrow> v)"

definition no_attribute :: "json \<Rightarrow> pystr \<Rightarrow> exn" where
  "no_attribute v a =
     Exn AttributeError
       ([39] @ type_name v @ [39] @ ascii '' object has no attribute '' @ [39] @ a @ [39])"

fun dict_get :: "json \<Rightarrow> pystr \<Rightarrow> json \<Rightarrow> exn + json" where
  "dict_get (JDict kvs) k dflt = Inr (lookup kvs k dflt)"
| "dict_get v k dflt = Inl (no_attribute v (ascii ''get''))"

text \<open>\<open>d.get(k1, {}).get(k2, default)\<close> on the entries of a dict.\<close>

definition lookup2 :: "(pystr \<times> json) list \<Rightarrow> pystr \<Rightarrow> pystr \<Rightarrow> json \<Rightarrow> exn + json" where
  "lookup2 kvs k1 k2 dflt = dict_get (lookup kvs k1 (JDict [])) k2 dflt"

text \<open>
  Iteration over a value: the elements of a list, the keys of a dict, the characters of
  a \<open>str\<close>; other values are not iterable.
\<close>

fun py_iter :: "json \<Rightarrow> exn + json list" where
  "py_iter (JList xs) = Inr xs"
| "py_iter (JDict kvs) = Inr (map (\<lambda>(k, v). JStr k) kvs)"
| "py_iter (JStr s) = Inr (map (\<lambda>c. JStr [c]) s)"
| "py_iter v = Inl (Exn TypeError ([39] @ type_name v @ [39] @ ascii '' object is not iterable''))"

text \<open>
  \<open>v[:n]\<close>: a slice of a list or of a \<open>str\<close>; a dict takes no slice as a key, and other
  values are not subscriptable.
\<close>

fun py_slice :: "int \<Rightarrow> json \<Rightarrow> exn + json" where
  "py_slice n (JList xs) = Inr (JList (py_take n xs))"
| "py_slice n (JStr s) = Inr (JStr (py_take n s))"
| "py_slice n (JDict kvs) = Inl (Exn TypeError (ascii ''unhashable type: '' @ [39] @ ascii ''slice'' @ [39]))"
| "py_slice n v = Inl (Exn TypeError ([39] @ type_name v @ [39] @ ascii '' object is not subscriptable''))"

text \<open>\<open>str(n)\<close> for an integer, and \<open>str(v)\<close>, which is also what an f-string puts.\<close>

fun show_nat :: "nat \<Rightarrow> pystr" where
  "show_nat n = (if n < 10 then [48 + n] else show_nat (n div 10) @ [48 + n mod 10])"

definition show_int :: "int \<Rightarrow> pystr" where
  "show_int i = (if i < 0 then 45 # show_nat (nat (- i)) else show_nat (nat i))"

fun py_str :: "lib \<Rightarrow> json \<Rightarrow> pystr" where
  "py_str L (JStr s) = s"
| "py_str L JNull = ascii ''None''"
| "py_str L (JBool b) = (if b then ascii ''True'' else ascii ''False'')"
| "py_str L (JInt n) = show_int n"
| "py_str L v = repr L v"

text \<open>
  A list comprehension whose element may raise or be filtered out: the first exception
  in the order of the elements, or the elements kept.
\<close>

fun comprehension :: "(exn + 'a option) list \<Rightarrow> exn + 'a list" where
  "comprehension [] = Inr []"
| "comprehension (Inl e # rest) = Inl e"
| "comprehension (Inr None # rest) = comprehension rest"
| "comprehension (Inr (Some x) # rest) =
     (case comprehension rest of Inl e \<Rightarrow> Inl e | Inr xs \<Rightarrow> Inr (x # xs))"

section \<open>The public fetchers\<close>

text \<open>
  A fetcher is modelled from what its request gives: the decoded payload or the parsed
  page, or the exception that the request, the status check or the decoding raised. The
  pause before the request, the headers and the logging are left out.
\<close>

subsection \<open>Bilibili recommendations\<close>






subsection \<open>Weibo hot search\<close>

text \<open>
  The page of the desktop endpoint as the fetcher reads it: the final URL after
  redirects, and the cells \<open>td.td-02\<close>, each with its first link (stripped text and
  \<open>href\<close>, empty when absent) and the stripped text of its first \<open>span\<close>.
\<close>

record td =
  a_tag :: "(pystr \<times> pystr) option"
  span :: "pystr option"

record weibo_page =
  final_url :: pystr
  td_items :: "td list"

text \<open>The pattern \<open>\\d+\<close>, and \<open>int\<close> of a run of digits.\<close>

definition digits :: regex where
  "digits = Seq (Chr is_digit) (Star is_digit)"

definition digit_value :: "nat \<Rightarrow> int" where
  "digit_value c =
     (case find (\<lambda>(lo, hi). lo \<le> c \<and> c \<le> hi) digit_ranges of
        None \<Rightarrow> 0
      | Some (lo, hi) \<Rightarrow> int ((c - lo) mod 10))"

text \<open>
  \<open>int(s)\<close> for a string of digits; beyond 4300 digits the conversion raises a
  \<open>ValueError\<close> (Python 3.11).
\<close>

definition int_of_digits :: "pystr \<Rightarrow> exn + int" where
  "int_of_digits s =
     (if 4300 < length s
      then Inl (Exn ValueError (ascii ''Exceeds the limit (4300 digits) for integer string conversion''))
      else Inr (foldl (\<lambda>n c. n * 10 + digit_value c) 0 s))"

text \<open>One cell: \<open>None\<close> when it has no link or the link has no text.\<close>

definition weibo_row :: "nat \<Rightarrow> td \<Rightarrow> exn + json option" where
  "weibo_row i cell =
     (case a_tag cell of
        None \<Rightarrow> Inr None
      | Some (word, href) \<Rightarrow>
          if word = [] then Inr None
          else
            (let href = (if href \<noteq> [] \<and> \<not> startswith href (ascii ''http'')
                         then ascii ''https://s.weibo.com'' @ href else href);
                 hot_text = (case span cell of None \<Rightarrow> [] | Some t \<Rightarrow> t);
                 note = (if hot_text \<noteq> [] then str_strip (re_sub digits [] True hot_text)
                         else [])
             in case (case re_search digits True hot_text of
                        None \<Rightarrow> Inr 0
                      | Some (start, n) \<Rightarrow> int_of_digits (take n (drop start hot_text))) of
                  Inl e \<Rightarrow> Inl e
                | Inr raw_hot \<Rightarrow>
                    Inr (Some (JDict
                      [(ascii ''word'', JStr word),
                       (ascii ''raw_hot'', JInt raw_hot),
                       (ascii ''note'', JStr note),
                       (ascii ''rank'', JInt (int i + 1)),
                       (ascii ''url'', JStr href)]))))"

text \<open>
  The loop over \<open>enumerate(td_items)\<close>, with the index and the list so far; the length
  is checked before each cell.
\<close>

fun weibo_rows :: "int \<Rightarrow> nat \<Rightarrow> json list \<Rightarrow> td list \<Rightarrow> exn + json list" where
  "weibo_rows limit i trending_list [] = Inr trending_list"
| "weibo_rows limit i trending_list (cell # cells) =
     (if limit \<le> int (length trending_list) then Inr trending_list
      else (case weibo_row i cell of
              Inl e \<Rightarrow> Inl e
            | Inr None \<Rightarrow> weibo_rows limit (Suc i) trending_list cells
            | Inr (Some row) \<Rightarrow> weibo_rows limit (Suc i) (trending_list @ [row]) cells))"

text \<open>One entry of the list comprehension of the fallback.\<close>

definition weibo_fallback_row :: "lib \<Rightarrow> json \<Rightarrow> exn + json option" where
  "weibo_fallback_row L item =
     (case item of
        JDict kvs \<Rightarrow>
          if truthy (lookup kvs (ascii ''is_ad'') JNull) then Inr None
          else
            (let word = lookup kvs (ascii ''word'') (JStr [])
             in case (if truthy word
                      then (case quote L word of
                              Inl e \<Rightarrow> Inl e
                            | Inr q \<Rightarrow> Inr (ascii ''https://s.weibo.com/weibo?q='' @ q))
                      else Inr []) of
                  Inl e \<Rightarrow> Inl e
                | Inr u \<Rightarrow>
                    Inr (Some (JDict
                      [(ascii ''word'', word),
                       (ascii ''raw_hot'', lookup kvs (ascii ''raw_hot'') (JInt 0)),
                       (ascii ''note'', lookup kvs (ascii ''note'') (JStr [])),
                       (ascii ''rank'', lookup kvs (ascii ''rank'') (JInt 0)),
                       (ascii ''url'', JStr u)])))
      | _ \<Rightarrow> Inl (no_attribute item (ascii ''get'')))"

definition weibo_fallback_rows :: "lib \<Rightarrow> int \<Rightarrow> (pystr \<times> json) list \<Rightarrow> exn + json list" where
  "weibo_fallback_rows L limit kvs =
     (case lookup2 kvs (ascii ''data'') (ascii ''realtime'') (JList []) of
        Inl e \<Rightarrow> Inl e
      | Inr realtime \<Rightarrow>
          (case py_slice limit realtime of
             Inl e \<Rightarrow> Inl e
           | Inr part \<Rightarrow>
               (case py_iter part of
                  Inl e \<Rightarrow> Inl e
                | Inr items \<Rightarrow> comprehension (map (weibo_fallback_row L) items))))"

definition weibo_bad_format :: pystr where
  "weibo_bad_format = ascii ''API'' @ [36820, 22238, 26684, 24335, 24322, 24120]"

definition weibo_api_error :: pystr where
  "weibo_api_error = [24494, 21338] @ ascii ''API'' @ [36820, 22238, 38169, 35823]"

text \<open>
  \<open>_fetch_weibo_trending_fallback\<close>, from the payload of the AJAX endpoint (or the
  exception of the request, the status check or the decoding).
\<close>

definition fetch_weibo_trending_fallback :: "lib \<Rightarrow> int \<Rightarrow> json outcome \<Rightarrow> fetch_result" where
  "fetch_weibo_trending_fallback L limit response =
     (case response of
        Raised e \<Rightarrow> Failure (exn_str e)
      | Returned (JDict kvs) \<Rightarrow>
          if eq_int (lookup kvs (ascii ''ok'') JNull) 1
          then (case weibo_fallback_rows L limit kvs of
                  Inl e \<Rightarrow> Failure (exn_str e)
                | Inr trending_list \<Rightarrow> Success (ascii ''trending'') trending_list)
          else Failure weibo_api_error
      | Returned data \<Rightarrow> Failure weibo_bad_format)"

text \<open>
  \<open>fetch_weibo_trending\<close>. \<open>primary\<close> is what the desktop endpoint gives (an exception
  anywhere in the \<open>try\<close> included), \<open>fallback\<close> what the AJAX endpoint gives when it is
  asked.
\<close>

definition fetch_weibo_trending ::
  "lib \<Rightarrow> int \<Rightarrow> weibo_page outcome \<Rightarrow> json outcome \<Rightarrow> fetch_result" where
  "fetch_weibo_trending L limit primary fallback =
     (case primary of
        Raised e \<Rightarrow> fetch_weibo_trending_fallback L limit fallback
      | Returned page \<Rightarrow>
          if contains (ascii ''passport'') (final_url page)
          then fetch_weibo_trending_fallback L limit fallback
          else if td_items page = []
          then fetch_weibo_trending_fallback L limit fallback
          else (case weibo_rows limit 0 [] (td_items page) of
                  Inl e \<Rightarrow> fetch_weibo_trending_fallback L limit fallback
                | Inr trending_list \<Rightarrow>
                    if trending_list \<noteq> [] then Success (ascii ''trending'') trending_list
                    else fetch_weibo_trending_fallback L limit fallback))"

subsection \<open>Reddit popular posts\<close>

text \<open>\<open>_format_score\<close>; a value that is no number cannot be compared with one.\<close>

definition format_score :: "lib \<Rightarrow> json \<Rightarrow> exn + pystr" where
  "format_score L n_count =
     (case n_count of
        JInt n \<Rightarrow>
          Inr (if 1000000 \<le> n then format_1f L n 1000000 @ ascii ''M''
               else if 1000 \<le> n then format_1f L n 1000 @ ascii ''K''
               else if 0 < n then show_int n
               else ascii ''0'')
      | JBool b \<Rightarrow> Inr (if b then ascii ''True'' else ascii ''0'')
      | _ \<Rightarrow>
          Inl (Exn TypeError
            ([39] @ ascii ''>='' @ [39] @ ascii '' not supported between instances of '' @ [39]
             @ type_name n_count @ [39] @ ascii '' and '' @ [39] @ ascii ''int'' @ [39])))"

text \<open>
  One child of the listing: \<open>None\<close> when its data has a truthy \<open>over_18\<close>, else the
  dict of the post.
\<close>

definition reddit_post :: "lib \<Rightarrow> json \<Rightarrow> exn + json option" where
  "reddit_post L item =
     (case dict_get item (ascii ''data'') (JDict []) of
        Inl e \<Rightarrow> Inl e
      | Inr (JDict pd) \<Rightarrow>
          if truthy (lookup pd (ascii ''over_18'') JNull) then Inr None
          else (case format_score L (lookup pd (ascii ''score'') (JInt 0)) of
                  Inl e \<Rightarrow> Inl e
                | Inr score \<Rightarrow>
                    Inr (Some (JDict
                      [(ascii ''title'', lookup pd (ascii ''title'') (JStr [])),
                       (ascii ''subreddit'',
                          JStr (ascii ''r/'' @ py_str L (lookup pd (ascii ''subreddit'') (JStr [])))),
                       (ascii ''score'', JStr score),
                       (ascii ''url'',
                          JStr (ascii ''https://www.reddit.com''
                                @ py_str L (lookup pd (ascii ''permalink'') (JStr []))))])))
      | Inr pd \<Rightarrow> Inl (no_attribute pd (ascii ''get'')))"

text \<open>\<open>data.get('data', {}).get('children', [])[:limit]\<close>, as the loop walks it.\<close>

definition reddit_children :: "int \<Rightarrow> json \<Rightarrow> exn + json list" where
  "reddit_children limit data =
     (case dict_get data (ascii ''data'') (JDict []) of
        Inl e \<Rightarrow> Inl e
      | Inr listing \<Rightarrow>
          (case dict_get listing (ascii ''children'') (JList []) of
             Inl e \<Rightarrow> Inl e
           | Inr children \<Rightarrow>
               (case py_slice limit children of
                  Inl e \<Rightarrow> Inl e
                | Inr part \<Rightarrow> py_iter part)))"

definition reddit_posts :: "lib \<Rightarrow> int \<Rightarrow> json \<Rightarrow> exn + json list" where
  "reddit_posts L limit data =
     (case reddit_children limit data of
        Inl e \<Rightarrow> Inl e
      | Inr items \<Rightarrow> comprehension (map (reddit_post L) items))"

definition reddit_empty :: pystr where
  "reddit_empty = ascii ''Reddit'' @ [36820, 22238, 31354, 25968, 25454]"

definition fetch_reddit_popular :: "lib \<Rightarrow> int \<Rightarrow> json outcome \<Rightarrow> fetch_result" where
  "fetch_reddit_popular L limit response =
     (case response of
        Raised e \<Rightarrow> Failure (exn_str e)
      | Returned data \<Rightarrow>
          (case reddit_posts L limit data of
             Inl e \<Rightarrow> Failure (exn_str e)
           | Inr posts \<Rightarrow>
               if posts \<noteq> [] then Success (ascii ''posts'') posts
               else Failure reddit_empty))"

subsection \<open>Twitter trends\<close>




section \<open>The personal fetchers\<close>

text \<open>
  The cookies of a platform, as \<open>_get_platform_cookies\<close> returns them: a dict from
  cookie names to values, empty when nothing is stored. A personal fetcher returns its
  result together with the URLs it requested, in the order of the requests.
\<close>

type_synonym cookies = "(pystr \<times> pystr) list"

type_synonym traced = "fetch_result \<times> pystr list"

text \<open>
  An HTTP response where the fetcher reads the status itself: the status code, and what
  \<open>response.json()\<close> gives.
\<close>

record http_response =
  status_code :: int
  body :: "json outcome"

subsection \<open>Reddit front page\<close>

definition reddit_no_cookies :: pystr where
  "reddit_no_cookies = [26410, 37197, 32622, 32] @ ascii ''config/reddit_cookies.json''"

definition fetch_reddit_personal_dynamic ::
  "lib \<Rightarrow> int \<Rightarrow> cookies \<Rightarrow> json outcome \<Rightarrow> traced" where
  "fetch_reddit_personal_dynamic L limit reddit_cookies response =
     (if reddit_cookies = [] then (Failure reddit_no_cookies, [])
      else
        (let url = ascii ''https://www.reddit.com/hot.json?limit='' @ show_int limit
         in case response of
              Raised e \<Rightarrow> (Failure (exn_str e), [url])
            | Returned data \<Rightarrow>
                (case reddit_posts L limit data of
                   Inl e \<Rightarrow> (Failure (exn_str e), [url])
                 | Inr posts \<Rightarrow> (Success (ascii ''posts'') posts, [url]))))"

subsection \<open>Weibo feed\<close>

text \<open>
  The patterns \<open><[^>]+>\<close> and \<open>\\s+\<close>, and the clean-up of a post's text: tags out,
  runs of white space to one blank, \<open>strip()\<close>.
\<close>

definition html_tag :: regex where
  "html_tag = seqs [Chr (\<lambda>c. c = 60), Chr (\<lambda>c. c \<noteq> 62), Star (\<lambda>c. c \<noteq> 62), Chr (\<lambda>c. c = 62)]"

definition spaces :: regex where
  "spaces = Seq (Chr is_space) (Star is_space)"

definition plain_text :: "pystr \<Rightarrow> pystr" where
  "plain_text t = str_strip (re_sub spaces [32] True (re_sub html_tag [] True t))"

text \<open>
  The dict of one post. \<open>mblog\<close> are the entries of the card's \<open>mblog\<close>.
\<close>

definition weibo_status :: "lib \<Rightarrow> (pystr \<times> json) list \<Rightarrow> exn + json" where
  "weibo_status L mblog =
     (case lookup2 mblog (ascii ''user'') (ascii ''screen_name'') JNull of
        Inl e \<Rightarrow> Inl e
      | Inr screen_name \<Rightarrow>
          (let author = py_or screen_name (JStr [26410, 30693, 21338, 20027]);
               clean_text =
                 plain_text (py_str L (py_or (lookup mblog (ascii ''text'') JNull) (JStr [])));
               retweet = lookup mblog (ascii ''retweeted_status'') JNull
           in case (if truthy retweet
                    then (case dict_get retweet (ascii ''user'') (JDict []) of
                            Inl e \<Rightarrow> Inl e
                          | Inr rt_user \<Rightarrow>
                         (case dict_get rt_user (ascii ''screen_name'') JNull of
                            Inl e \<Rightarrow> Inl e
                          | Inr rt_name \<Rightarrow>
                         (case dict_get retweet (ascii ''text'') JNull of
                            Inl e \<Rightarrow> Inl e
                          | Inr rt_text \<Rightarrow>
                              Inr (clean_text
                                   @ [32, 47, 47, 32, 91, 36716, 21457, 21160, 24577, 93, 32, 64]
                                   @ py_str L (py_or rt_name (JStr [21407, 21338, 20027]))
                                   @ ascii '': ''
                                   @ plain_text (py_str L (py_or rt_text (JStr [])))))))
                    else Inr clean_text) of
                Inl e \<Rightarrow> Inl e
              | Inr clean_text \<Rightarrow>
                  (let display_text =
                         (if clean_text \<noteq> [] then clean_text
                          else [91, 20998, 20139, 20102, 22270, 29255, 47, 21160, 24577, 93]);
                       final_content =
                         [21338, 20027, 12304] @ py_str L author @ [12305, 58, 32] @ display_text;
                       mid = py_or (lookup mblog (ascii ''mid'') JNull)
                               (lookup mblog (ascii ''id'') (JStr []))
                   in Inr (JDict
                        [(ascii ''author'', author),
                         (ascii ''content'', JStr final_content),
                         (ascii ''timestamp'',
                            py_or (lookup mblog (ascii ''created_at'') JNull) (JStr [])),
                         (ascii ''url'',
                            JStr (ascii ''https://m.weibo.cn/detail/'' @ py_str L mid))]))))"

text \<open>
  The loop over the cards, with the list so far: only cards of type 9 with an \<open>mblog\<close>
  count, and the loop breaks once the list has \<open>limit\<close> posts, checked after each
  \<open>append\<close>.
\<close>

fun weibo_statuses :: "lib \<Rightarrow> int \<Rightarrow> json list \<Rightarrow> json list \<Rightarrow> exn + json list" where
  "weibo_statuses L limit weibo_list [] = Inr weibo_list"
| "weibo_statuses L limit weibo_list (JDict the_card # cards) =
     (if \<not> eq_int (lookup the_card (ascii ''card_type'') JNull) 9
      then weibo_statuses L limit weibo_list cards
      else if \<not> truthy (lookup the_card (ascii ''mblog'') JNull)
      then weibo_statuses L limit weibo_list cards
      else (case lookup the_card (ascii ''mblog'') JNull of
              JDict mblog \<Rightarrow>
                (case weibo_status L mblog of
                   Inl e \<Rightarrow> Inl e
                 | Inr status \<Rightarrow>
                     if limit \<le> int (length (weibo_list @ [status]))
                     then Inr (weibo_list @ [status])
                     else weibo_statuses L limit (weibo_list @ [status]) cards)
            | v \<Rightarrow> Inl (no_attribute v (ascii ''get''))))"
| "weibo_statuses L limit weibo_list (the_card # cards) = Inl (no_attribute the_card (ascii ''get''))"

definition weibo_cards :: "json \<Rightarrow> exn + json list" where
  "weibo_cards data =
     (case dict_get data (ascii ''data'') (JDict []) of
        Inl e \<Rightarrow> Inl e
      | Inr d \<Rightarrow>
          (case dict_get d (ascii ''cards'') (JList []) of
             Inl e \<Rightarrow> Inl e
           | Inr cards \<Rightarrow> py_iter cards))"

definition weibo_no_cookies :: pystr where
  "weibo_no_cookies = [26410, 25214, 21040, 32] @ ascii ''config/weibo_cookies.json''"

definition weibo_no_sub :: pystr where
  "weibo_no_sub = [32570, 23569, 26680, 24515, 30331, 24405, 20973, 35777, 32] @ ascii ''SUB''"

definition weibo_bad_status :: pystr where
  "weibo_bad_status =
     ascii ''API'' @ [35831, 27714, 22833, 36133, 65292, 29366, 24577, 30721, 58, 32]"

definition weibo_expired :: pystr where
  "weibo_expired =
     [24494, 21338, 20973, 35777, 24050, 36807, 26399, 65292, 35831, 21435, 27983, 35272,
      22120, 37325, 26032, 33719, 21462]"

definition weibo_nothing_parsed :: pystr where
  "weibo_nothing_parsed = [26410, 35299, 26512, 21040, 24494, 21338, 20869, 23481]"

text \<open>\<open>weibo_cookies.get('SUB') or weibo_cookies.get('sub')\<close>.\<close>

definition weibo_sub :: "cookies \<Rightarrow> pystr option" where
  "weibo_sub weibo_cookies =
     (case map_of weibo_cookies (ascii ''SUB'') of
        None \<Rightarrow> map_of weibo_cookies (ascii ''sub'')
      | Some v \<Rightarrow> if v \<noteq> [] then Some v else map_of weibo_cookies (ascii ''sub''))"

text \<open>The part of \<open>fetch_weibo_personal_dynamic\<close> after the request.\<close>

definition weibo_feed :: "lib \<Rightarrow> int \<Rightarrow> http_response outcome \<Rightarrow> fetch_result" where
  "weibo_feed L limit response =
     (case response of
        Raised e \<Rightarrow> Failure (exn_str e)
      | Returned r \<Rightarrow>
          if status_code r \<noteq> 200 then Failure (weibo_bad_status @ show_int (status_code r))
          else (case body r of
                  Raised e \<Rightarrow> Failure (exn_str e)
                | Returned data \<Rightarrow>
                    (case dict_get data (ascii ''ok'') JNull of
                       Inl e \<Rightarrow> Failure (exn_str e)
                     | Inr ok_value \<Rightarrow>
                         if \<not> eq_int ok_value 1 then Failure weibo_expired
                         else (case weibo_cards data of
                                 Inl e \<Rightarrow> Failure (exn_str e)
                               | Inr cards \<Rightarrow>
                                   (case weibo_statuses L limit [] cards of
                                      Inl e \<Rightarrow> Failure (exn_str e)
                                    | Inr weibo_list \<Rightarrow>
                                        if weibo_list \<noteq> []
                                        then Success (ascii ''statuses'') weibo_list
                                        else Failure weibo_nothing_parsed)))))"

definition fetch_weibo_personal_dynamic ::
  "lib \<Rightarrow> int \<Rightarrow> cookies \<Rightarrow> http_response outcome \<Rightarrow> traced" where
  "fetch_weibo_personal_dynamic L limit weibo_cookies response =
     (if weibo_cookies = [] then (Failure weibo_no_cookies, [])
      else if weibo_sub weibo_cookies = None \<or> weibo_sub weibo_cookies = Some []
      then (Failure weibo_no_sub, [])
      else (weibo_feed L limit response,
            [ascii ''https://m.weibo.cn/api/container/getIndex?containerid=102803'']))"

subsection \<open>Twitter timeline\<close>

text \<open>The pattern \<open>https://t\\.co/\\w+\<close>.\<close>

definition short_link :: "lib \<Rightarrow> regex" where
  "short_link L = seqs [lit (ascii ''https://t.co/''), Chr (is_word L), Star (is_word L)]"

definition without_links :: "lib \<Rightarrow> pystr \<Rightarrow> pystr" where
  "without_links L t = str_strip (re_sub (short_link L) [] True t)"

text \<open>
  The page \<open>https://twitter.com/home\<close> as the fallback reads it: the final URL, and
  what the two \<open>re.findall\<close> calls find in the text.
\<close>

record twitter_home =
  res_url :: pystr
  tweet_texts :: "pystr list"
  screen_names :: "pystr list"

definition twitter_expired :: pystr where
  "twitter_expired =
     ascii ''Twitter Cookie '' @ [24050, 36807, 26399, 65292, 32593, 39029, 31471, 25298,
       32477, 35775, 38382]"

definition twitter_scrape_failed :: pystr where
  "twitter_scrape_failed =
     [32593, 39029, 27491, 21017, 25235, 21462, 22833, 36133, 65292, 39029, 38754, 32467,
      26500, 21487, 33021, 24050, 21464, 26356]"

definition scraped_tweet :: "lib \<Rightarrow> pystr list \<Rightarrow> nat \<times> pystr \<Rightarrow> json" where
  "scraped_tweet L names it =
     (case it of (i, t) \<Rightarrow>
        JDict [(ascii ''author'',
                  JStr (64 # (if i < length names then names ! i else ascii ''Unknown''))),
               (ascii ''content'', JStr (without_links L t)),
               (ascii ''timestamp'', JStr [21018, 21018])])"

definition fetch_twitter_personal_web_scraping ::
  "lib \<Rightarrow> int \<Rightarrow> twitter_home outcome \<Rightarrow> fetch_result" where
  "fetch_twitter_personal_web_scraping L limit res =
     (case res of
        Raised e \<Rightarrow> Failure (exn_str e)
      | Returned page \<Rightarrow>
          if contains (ascii ''login'') (res_url page) \<or> contains (ascii ''logout'') (res_url page)
          then Failure twitter_expired
          else (let tweets = map (scraped_tweet L (screen_names page))
                               (enumerate 0 (py_take limit (tweet_texts page)))
                in if tweets \<noteq> [] then Success (ascii ''tweets'') tweets
                   else Failure twitter_scrape_failed))"

text \<open>The dict of one tweet of the timeline.\<close>

definition timeline_tweet :: "lib \<Rightarrow> json \<Rightarrow> exn + json option" where
  "timeline_tweet L tweet =
     (case tweet of
        JDict kvs \<Rightarrow>
          (case lookup2 kvs (ascii ''user'') (ascii ''screen_name'') JNull of
             Inl e \<Rightarrow> Inl e
           | Inr screen_name \<Rightarrow>
               (let author = py_or screen_name (JStr (ascii ''Unknown''));
                    clean_text =
                      without_links L
                        (py_str L (py_or (lookup kvs (ascii ''full_text'') JNull)
                                     (py_or (lookup kvs (ascii ''text'') JNull) (JStr []))))
                in case (case map_of kvs (ascii ''retweeted_status'') of
                           None \<Rightarrow> Inr clean_text
                         | Some rt \<Rightarrow>
                             (case dict_get rt (ascii ''user'') (JDict []) of
                                Inl e \<Rightarrow> Inl e
                              | Inr rt_u \<Rightarrow>
                             (case dict_get rt_u (ascii ''screen_name'') (JStr (ascii ''Unknown'')) of
                                Inl e \<Rightarrow> Inl e
                              | Inr rt_user \<Rightarrow>
                             (case dict_get rt (ascii ''full_text'') JNull of
                                Inl e \<Rightarrow> Inl e
                              | Inr rt_text \<Rightarrow>
                                  Inr (ascii ''RT @'' @ py_str L rt_user @ ascii '': ''
                                       @ without_links L (py_str L (py_or rt_text (JStr [])))))))) of
                     Inl e \<Rightarrow> Inl e
                   | Inr clean_text \<Rightarrow>
                       Inr (Some (JDict
                         [(ascii ''author'', JStr (64 # py_str L author)),
                          (ascii ''content'', JStr clean_text),
                          (ascii ''timestamp'', lookup kvs (ascii ''created_at'') (JStr []))]))))
      | _ \<Rightarrow> Inl (no_attribute tweet (ascii ''get'')))"

definition twitter_no_cookies :: pystr where
  "twitter_no_cookies = [26410, 37197, 32622, 32] @ ascii ''config/twitter_cookies.json''"

definition twitter_bad_format :: pystr where
  "twitter_bad_format =
     ascii ''API '' @ [36820, 22238, 25968, 25454, 26684, 24335, 24322, 24120]"

definition twitter_nothing_parsed :: pystr where
  "twitter_nothing_parsed = [26410, 35299, 26512, 21040, 25512, 25991, 20869, 23481]"

text \<open>
  \<open>fetch_twitter_personal_dynamic\<close>. \<open>response\<close> is what the API gives, \<open>res\<close> what the
  home page gives when the fetcher falls back to it.
\<close>

definition fetch_twitter_personal_dynamic ::
  "lib \<Rightarrow> int \<Rightarrow> cookies \<Rightarrow> http_response outcome \<Rightarrow> twitter_home outcome \<Rightarrow> traced" where
  "fetch_twitter_personal_dynamic L limit twitter_cookies response res =
     (if twitter_cookies = [] then (Failure twitter_no_cookies, [])
      else
        (let url = ascii ''https://api.twitter.com/1.1/statuses/home_timeline.json''
                   @ ascii ''?tweet_mode=extended&count='' @ show_int limit
         in case response of
              Raised e \<Rightarrow> (Failure (exn_str e), [url])
            | Returned r \<Rightarrow>
                if status_code r \<noteq> 200
                then (fetch_twitter_personal_web_scraping L limit res,
                      [url, ascii ''https://twitter.com/home''])
                else (case body r of
                        Raised e \<Rightarrow> (Failure (exn_str e), [url])
                      | Returned (JList data) \<Rightarrow>
                          (case comprehension (map (timeline_tweet L) (py_take limit data)) of
                             Inl e \<Rightarrow> (Failure (exn_str e), [url])
                           | Inr tweets \<Rightarrow>
                               if tweets \<noteq> [] then (Success (ascii ''tweets'') tweets, [url])
                               else (Failure twitter_nothing_parsed, [url]))
                      | Returned data \<Rightarrow> (Failure twitter_bad_format, [url]))))"

subsection \<open>Bilibili feed\<close>

text \<open>\<open>safe_dict\<close>, on the entries of a dict: the entries of the dict under the key, else none.\<close>

definition safe_dict :: "(pystr \<times> json) list \<Rightarrow> pystr \<Rightarrow> (pystr \<times> json) list" where
  "safe_dict d key = (case lookup d key JNull of JDict v \<Rightarrow> v | _ \<Rightarrow> [])"

definition come_to_my_room :: pystr where
  "come_to_my_room =
     [24555, 26469, 25105, 30340, 30452, 25773, 38388, 30475, 30475, 21543, 65281]"

definition live_tag :: pystr where
  "live_tag = [91, 27491, 22312, 30452, 25773, 93, 32]"

text \<open>The title and the URL that a \<open>live_play_info\<close> dict gives.\<close>

definition play_info_of :: "lib \<Rightarrow> (pystr \<times> json) list \<Rightarrow> json \<Rightarrow> pystr \<Rightarrow> json \<times> pystr" where
  "play_info_of L play_info live_title specific_url =
     (lookup play_info (ascii ''title'') live_title,
      if truthy (lookup play_info (ascii ''room_id'') JNull)
      then ascii ''https://live.bilibili.com/''
           @ py_str L (lookup play_info (ascii ''room_id'') JNull)
      else specific_url)"

text \<open>
  The inner \<open>try\<close> of the case \<open>MAJOR_TYPE_LIVE_RCMD\<close>: the title and the URL after it.
  An exception in it (from \<open>json.loads\<close>, or from \<open>.get\<close> on what it returns) is passed
  over, and it can only come before the first assignment.
\<close>

definition live_rcmd_info :: "lib \<Rightarrow> (pystr \<times> json) list \<Rightarrow> json \<Rightarrow> pystr \<Rightarrow> json \<times> pystr" where
  "live_rcmd_info L major raw_text specific_url =
     (case py_or (lookup major (ascii ''live_rcmd'') JNull) (lookup major (ascii ''live'') JNull) of
        JDict live_rcmd \<Rightarrow>
          (case (case lookup live_rcmd (ascii ''content'') JNull of
                   JStr content_str \<Rightarrow>
                     if startswith content_str [123] then Some content_str else None
                 | _ \<Rightarrow> None) of
             Some content_str \<Rightarrow>
               (case json_loads L content_str of
                  Inl e \<Rightarrow> (raw_text, specific_url)
                | Inr parsed \<Rightarrow>
                    (case dict_get parsed (ascii ''live_play_info'') JNull of
                       Inl e \<Rightarrow> (raw_text, specific_url)
                     | Inr (JDict play_info) \<Rightarrow> play_info_of L play_info raw_text specific_url
                     | Inr v \<Rightarrow> (raw_text, specific_url)))
           | None \<Rightarrow>
               (case lookup live_rcmd (ascii ''live_play_info'') JNull of
                  JDict play_info \<Rightarrow> play_info_of L play_info raw_text specific_url
                | _ \<Rightarrow> (raw_text, specific_url)))
      | _ \<Rightarrow> (raw_text, specific_url))"

text \<open>The pattern of the room number in the text of a live push (\<open>room:\<close> in Chinese, then \<open>(\\d+)\<close>).\<close>

definition room_number :: regex where
  "room_number = Seq (lit [30452, 25773, 38388, 65306]) digits"

text \<open>
  The \<open>match\<close> statement on the major type: the content before its clean-up, and the
  URL. The content of the last branch is the raw text itself, which need not be a
  \<open>str\<close>; \<open>re\<close> raises a \<open>TypeError\<close> on a value that is none.
\<close>

definition not_a_string :: exn where
  "not_a_string = Exn TypeError (ascii ''expected string or bytes-like object'')"

definition dynamic_content ::
  "lib \<Rightarrow> pystr \<Rightarrow> (pystr \<times> json) list \<Rightarrow> json \<Rightarrow> json \<Rightarrow> pystr \<Rightarrow> exn + pystr \<times> pystr" where
  "dynamic_content L dynamic_type major major_type raw_text specific_url =
     (if major_type = JStr (ascii ''MAJOR_TYPE_ARCHIVE'') then
        (let archive = safe_dict major (ascii ''archive'');
             bvid = lookup archive (ascii ''bvid'') (JStr [])
         in Inr ([91, 21457, 24067, 20102, 26032, 35270, 39057, 93, 32]
                   @ py_str L (lookup archive (ascii ''title'') (JStr [])),
                 if truthy bvid then ascii ''https://www.bilibili.com/video/'' @ py_str L bvid
                 else specific_url))
      else if major_type = JStr (ascii ''MAJOR_TYPE_DRAW'') then
        Inr (if truthy raw_text then [91, 22270, 25991, 21160, 24577, 93, 32] @ py_str L raw_text
             else [91, 20998, 20139, 20102, 22270, 29255, 93],
             specific_url)
      else if major_type = JStr (ascii ''MAJOR_TYPE_ARTICLE'') then
        (let article = safe_dict major (ascii ''article'');
             article_id = lookup article (ascii ''id'') (JStr [])
         in Inr ([91, 21457, 24067, 20102, 19987, 26639, 25991, 31456, 93, 32]
                   @ py_str L (lookup article (ascii ''title'') (JStr [])),
                 if truthy article_id
                 then ascii ''https://www.bilibili.com/read/cv'' @ py_str L article_id
                 else specific_url))
      else if major_type = JStr (ascii ''MAJOR_TYPE_LIVE_RCMD'') then
        (case live_rcmd_info L major raw_text specific_url of
           (live_title, live_url) \<Rightarrow>
             Inr (live_tag @ py_str L (py_or live_title (JStr come_to_my_room)), live_url))
      else if dynamic_type = ascii ''DYNAMIC_TYPE_LIVE_RCMD'' then
        (case raw_text of
           JStr t \<Rightarrow>
             Inr (live_tag @ py_str L (py_or raw_text (JStr come_to_my_room)),
                  case re_search room_number True t of
                    None \<Rightarrow> specific_url
                  | Some (start, n) \<Rightarrow>
                      ascii ''https://live.bilibili.com/'' @ take (n - 4) (drop (start + 4) t))
         | _ \<Rightarrow> Inl not_a_string)
      else if dynamic_type = ascii ''DYNAMIC_TYPE_FORWARD'' then
        Inr (if truthy raw_text then [91, 36716, 21457, 21160, 24577, 93, 32] @ py_str L raw_text
             else [91, 36716, 21457, 20102, 21160, 24577, 93],
             specific_url)
      else
        (case py_or raw_text (JStr [21457, 24067, 20102, 26032, 21160, 24577]) of
           JStr t \<Rightarrow> Inr (t, specific_url)
         | _ \<Rightarrow> Inl not_a_string))"

text \<open>
  The body of the loop for one item (its entries): \<open>Inr None\<close> for the types the loop
  skips, \<open>Inl e\<close> for an exception, which the \<open>try\<close> around the body logs and drops.
\<close>

definition bilibili_dynamic :: "lib \<Rightarrow> (pystr \<times> json) list \<Rightarrow> exn + json option" where
  "bilibili_dynamic L item =
     (let dynamic_id = py_str L (lookup item (ascii ''id_str'') (JStr []));
          dynamic_type = py_str L (lookup item (ascii ''type'') (JStr []))
      in if dynamic_type \<in> set [ascii ''DYNAMIC_TYPE_AD'', ascii ''DYNAMIC_TYPE_APPLET'',
                                  ascii ''DYNAMIC_TYPE_NONE'']
         then Inr None
         else
           (let modules = safe_dict item (ascii ''modules'');
                module_author = safe_dict modules (ascii ''module_author'');
                author = py_or (lookup module_author (ascii ''name'') JNull)
                           (JStr [26410, 30693, 85, 80, 20027]);
                pub_time = py_or (lookup module_author (ascii ''pub_time'') JNull)
                             (JStr [21018, 21018]);
                module_dynamic = safe_dict modules (ascii ''module_dynamic'');
                major = safe_dict module_dynamic (ascii ''major'');
                desc = safe_dict module_dynamic (ascii ''desc'');
                major_type = lookup major (ascii ''type'') JNull;
                raw_text = py_or (lookup desc (ascii ''text'') JNull) (JStr []);
                base_url = ascii ''https://t.bilibili.com/'' @ dynamic_id
            in case dynamic_content L dynamic_type major major_type raw_text base_url of
                 Inl e \<Rightarrow> Inl e
               | Inr (content, specific_url) \<Rightarrow>
                   (let content = str_strip (re_sub spaces [32] True content);
                        content = (if content = [] then [20998, 20139, 20102, 26032, 21160, 24577]
                                   else content);
                        final_content =
                          [85, 80, 20027, 12304] @ py_str L author @ [12305, 58, 32] @ content
                    in Inr (Some (JDict
                         [(ascii ''dynamic_id'', JStr dynamic_id),
                          (ascii ''type'', JStr dynamic_type),
                          (ascii ''timestamp'', pub_time),
                          (ascii ''author'', author),
                          (ascii ''content'', JStr final_content),
                          (ascii ''url'', JStr specific_url),
                          (ascii ''base_url'', JStr base_url)])))))"

text \<open>
  The loop over the items, with the list so far: what is no dict is skipped, and so is an
  item whose body raised; the loop breaks once the list has \<open>limit\<close> entries, checked
  after each \<open>append\<close>.
\<close>

fun bilibili_dynamics :: "lib \<Rightarrow> int \<Rightarrow> json list \<Rightarrow> json list \<Rightarrow> json list" where
  "bilibili_dynamics L limit dynamic_list [] = dynamic_list"
| "bilibili_dynamics L limit dynamic_list (JDict item # items) =
     (case bilibili_dynamic L item of
        Inl e \<Rightarrow> bilibili_dynamics L limit dynamic_list items
      | Inr None \<Rightarrow> bilibili_dynamics L limit dynamic_list items
      | Inr (Some d) \<Rightarrow>
          if limit \<le> int (length (dynamic_list @ [d])) then dynamic_list @ [d]
          else bilibili_dynamics L limit (dynamic_list @ [d]) items)"
| "bilibili_dynamics L limit dynamic_list (item # items) =
     bilibili_dynamics L limit dynamic_list items"

text \<open>
  \<open>_get_bilibili_credential\<close>: \<open>None\<close> when the library is missing or no cookie is stored.
\<close>

definition get_bilibili_credential :: "bool \<Rightarrow> cookies \<Rightarrow> cookies option" where
  "get_bilibili_credential installed bilibili_cookies =
     (if \<not> installed then None
      else if bilibili_cookies = [] then None
      else Some bilibili_cookies)"

definition bilibili_no_credential :: pystr where
  "bilibili_no_credential =
     [26410, 25552, 20379] @ ascii ''Bilibili'' @ [35748, 35777, 20449, 24687]"

definition bilibili_request_failed :: pystr where
  "bilibili_request_failed = ascii ''API'' @ [35831, 27714, 22833, 36133]"

text \<open>The part of \<open>fetch_bilibili_personal_dynamic\<close> after the request.\<close>

definition bilibili_feed :: "lib \<Rightarrow> int \<Rightarrow> json outcome \<Rightarrow> fetch_result" where
  "bilibili_feed L limit response =
     (case response of
        Raised e \<Rightarrow> Failure (exn_str e)
      | Returned (JDict data) \<Rightarrow>
          if \<not> eq_int (lookup data (ascii ''code'') JNull) 0 then Failure bilibili_request_failed
          else (case (case lookup data (ascii ''data'') JNull of
                        JDict d \<Rightarrow> py_iter (lookup d (ascii ''items'') (JList []))
                      | _ \<Rightarrow> Inr []) of
                  Inl e \<Rightarrow> Failure (exn_str e)
                | Inr items \<Rightarrow> Success (ascii ''dynamics'') (bilibili_dynamics L limit [] items))
      | Returned data \<Rightarrow> Failure bilibili_request_failed)"

definition fetch_bilibili_personal_dynamic ::
  "lib \<Rightarrow> int \<Rightarrow> bool \<Rightarrow> cookies \<Rightarrow> json outcome \<Rightarrow> traced" where
  "fetch_bilibili_personal_dynamic L limit installed bilibili_cookies response =
     (case get_bilibili_credential installed bilibili_cookies of
        None \<Rightarrow> (Failure bilibili_no_credential, [])
      | Some credential \<Rightarrow>
          (bilibili_feed L limit response,
           [ascii ''https://api.bilibili.com/x/polymer/web-dynamic/v1/feed/all'']))"

section \<open>Notions the properties of the fetchers use\<close>

text \<open>A child of a Reddit listing whose data has a truthy \<open>over_18\<close>.\<close>

definition marked_over_18 :: "json \<Rightarrow> bool" where
  "marked_over_18 item =
     (case dict_get item (ascii ''data'') (JDict []) of
        Inr (JDict pd) \<Rightarrow> truthy (lookup pd (ascii ''over_18'') JNull)
      | _ \<Rightarrow> False)"

text \<open>
  An instance of the library record, for evaluating the fetchers on given payloads: its
  functions return nothing of interest.
\<close>

definition example_lib :: lib where
  "example_lib =
     \<lparr>repr = (\<lambda>v. []), format_1f = (\<lambda>a b. []), quote = (\<lambda>v. Inr []),
      json_loads = (\<lambda>s. Inl (Exn ValueError [])), is_word = (\<lambda>c. False)\<rparr>"

text \<open>
  The desktop endpoint of Weibo denies the hot search: the request or the parsing raised,
  the final URL is a passport redirect, or no row could be read from the page.
\<close>

definition primary_denied :: "int \<Rightarrow> weibo_page outcome \<Rightarrow> bool" where
  "primary_denied limit primary =
     (case primary of
        Raised e \<Rightarrow> True
      | Returned page \<Rightarrow>
          contains (ascii ''passport'') (final_url page)
          \<or> (case weibo_rows limit 0 [] (td_items page) of
                Inl e \<Rightarrow> True
              | Inr trending_list \<Rightarrow> trending_list = []))"

chapter \<open>Properties\<close>

section \<open>Properties of the orchestrators\<close>

lemma fetch_public_content_success:
  "success (fetch_public_content china_region first second)
     = (ok (as_result first) \<or> ok (as_result second))"
  by (simp add: fetch_public_content_def Let_def)

lemma fetch_public_content_platforms:
  "map snd (platforms (fetch_public_content china_region first second))
     = [as_result first, as_result second]"
  by (simp add: fetch_public_content_def Let_def)

lemma fetch_personal_dynamics_platforms:
  "map snd (platforms (fetch_personal_dynamics china_region first second))
     = [as_result first, as_result second]"
  by (simp add: fetch_personal_dynamics_def Let_def)

text \<open>
  Claim C1. The envelope's success flag is true exactly when one of the two per-platform
  results succeeded. \<open>fetch_public_content\<close> does that (lemma
  \<open>fetch_public_content_success\<close>); \<open>fetch_personal_dynamics\<close> sets the flag to true
  whatever the branches returned. With no cookies stored, both personal fetchers of the
  China region fail, and the envelope still says success.
\<close>

theorem C1_personal_success_when_both_fail:
  "success (fetch_personal_dynamics True
      (Returned (Failure [26410, 25552, 20379, 66, 105, 108, 105, 98, 105, 108, 105,
                          35748, 35777, 20449, 24687]))
      (Returned (Failure ([26410, 25214, 21040, 32] @ ascii ''config/weibo_cookies.json''))))
   \<and> \<not> ok (Failure [26410, 25552, 20379, 66, 105, 108, 105, 98, 105, 108, 105,
                    35748, 35777, 20449, 24687])
   \<and> \<not> ok (Failure ([26410, 25214, 21040, 32] @ ascii ''config/weibo_cookies.json''))"
  by (simp add: fetch_personal_dynamics_def)

text \<open>
  Claim C2, as the code has it. A branch that raised becomes the branch's result
  \<open>{'success': False, 'error': str(e)}\<close>, the sibling's result is passed through as it is,
  and with a succeeding sibling the envelope says success; with two raising branches the
  envelope still holds both converted results. The message is \<open>str(e)\<close>, whatever it is.
\<close>

theorem C2_raised_branch_becomes_failure:
  assumes "ok r"
  shows "map snd (platforms (fetch_public_content c (Raised e) (Returned r)))
           = [Failure (exn_str e), r]
       \<and> success (fetch_public_content c (Raised e) (Returned r))
       \<and> map snd (platforms (fetch_public_content c (Returned r) (Raised e)))
           = [r, Failure (exn_str e)]
       \<and> success (fetch_public_content c (Returned r) (Raised e))
       \<and> map snd (platforms (fetch_personal_dynamics c (Raised e) (Returned r)))
           = [Failure (exn_str e), r]
       \<and> success (fetch_personal_dynamics c (Raised e) (Returned r))
       \<and> map snd (platforms (fetch_personal_dynamics c (Returned r) (Raised e)))
           = [r, Failure (exn_str e)]
       \<and> success (fetch_personal_dynamics c (Returned r) (Raised e))
       \<and> map snd (platforms (fetch_public_content c (Raised e) (Raised e')))
           = [Failure (exn_str e), Failure (exn_str e')]
       \<and> map snd (platforms (fetch_personal_dynamics c (Raised e) (Raised e')))
           = [Failure (exn_str e), Failure (exn_str e')]"
  using assms
  by (simp add: fetch_public_content_success fetch_public_content_platforms
      fetch_personal_dynamics_platforms)
     (simp add: fetch_personal_dynamics_def)

theorem C2_raised_branch_becomes_failure_witness:
  "ok (Success (ascii ''trending'') [])
   \<and> map snd (platforms (fetch_public_content True
         (Raised (Exn OtherException (ascii ''boom'')))
         (Returned (Success (ascii ''trending'') []))))
       = [Failure (ascii ''boom''), Success (ascii ''trending'') []]
   \<and> success (fetch_public_content True
         (Raised (Exn OtherException (ascii ''boom'')))
         (Returned (Success (ascii ''trending'') [])))"
  using C2_raised_branch_becomes_failure
    [of "Success (ascii ''trending'') []" True "Exn OtherException (ascii ''boom'')"]
  by simp

text \<open>
  The claim asks for a non-empty error message. An exception whose \<open>str\<close> is empty (a
  timeout raised with no argument is one) gives the branch the empty message.
\<close>

theorem C2_empty_message_counterexample:
  "map snd (platforms (fetch_public_content True
       (Raised (Exn OtherException []))
       (Returned (Success (ascii ''trending'') []))))
     = [Failure [], Success (ascii ''trending'') []]"
  by (simp add: fetch_public_content_platforms)


section \<open>Properties of the region selection\<close>

lemma locale_handlers_returns: "\<exists>b. locale_handlers r = Inr b"
  by (cases r rule: locale_handlers.cases) auto

lemma read_failed_try_locale:
  "read_failed r \<Longrightarrow> locale_handlers (try_locale r) = Inr False"
proof (cases r rule: read_failed.cases)
  case (1 e)
  then show ?thesis
    by (cases "Inl e :: exn + bool" rule: locale_handlers.cases) (simp_all add: try_locale_def)
qed (simp_all add: try_locale_def)

text \<open>
  Claim C8. Whatever the two locale reads give or raise, also a malformed or empty locale
  name, \<open>is_china_region\<close> returns a value and raises nothing; and when both reads detect
  nothing the value is \<open>False\<close>, the International classification.
\<close>

theorem C8_is_china_region_never_raises:
  "(\<exists>b. is_china_region system_locale default_locale = Inr b)
   \<and> (read_failed system_locale \<and> read_failed default_locale
        \<longrightarrow> is_china_region system_locale default_locale = Inr False)"
proof -
  obtain b1 where b1: "locale_handlers (try_locale system_locale) = Inr b1"
    using locale_handlers_returns by blast
  obtain b2 where b2: "locale_handlers (try_locale default_locale) = Inr b2"
    using locale_handlers_returns by blast
  have "\<exists>b. is_china_region system_locale default_locale = Inr b"
    by (cases b1; cases b2; auto simp add: is_china_region_def b1 b2)
  moreover have "is_china_region system_locale default_locale = Inr False"
    if "read_failed system_locale" "read_failed default_locale"
    using that by (simp add: is_china_region_def read_failed_try_locale)
  ultimately show ?thesis by blast
qed

theorem C8_is_china_region_never_raises_witness:
  "read_failed (Raised (Exn ValueError (ascii ''unknown locale: xx'')))
   \<and> read_failed (Returned (Some []))
   \<and> is_china_region (Raised (Exn ValueError (ascii ''unknown locale: xx'')))
        (Returned (Some [])) = Inr False"
  using C8_is_china_region_never_raises
    [of "Raised (Exn ValueError (ascii ''unknown locale: xx''))" "Returned (Some [])"]
  by simp

section \<open>Properties of gathering and merging\<close>

lemma dedup_key_fresh:
  "r \<in> set (dedup seen xs) \<Longrightarrow> dedup_key r \<notin> seen \<and> dedup_key r \<noteq> []"
  by (induction xs arbitrary: seen) (auto simp: Let_def split: if_splits)

lemma dedup_distinct: "distinct (map dedup_key (dedup seen xs))"
  by (induction xs arbitrary: seen) (auto simp: Let_def dest: dedup_key_fresh)

lemma dedup_keys:
  "dedup_key ` set (dedup seen xs) = {k \<in> dedup_key ` set xs. k \<noteq> [] \<and> k \<notin> seen}"
  by (induction xs arbitrary: seen) (auto simp: Let_def)

lemma dedup_first:
  "r \<in> set (dedup seen xs) \<Longrightarrow> find (\<lambda>x. dedup_key x = dedup_key r) xs = Some r"
  by (induction xs arbitrary: seen) (auto simp: Let_def split: if_splits dest: dedup_key_fresh)

lemma dedup_subseq: "subseq (dedup seen xs) xs"
  by (induction xs arbitrary: seen) (auto simp: Let_def)

lemma py_take_length: "0 \<le> n \<Longrightarrow> length (py_take n xs) \<le> nat n"
  by (simp add: py_take_def)

lemma filter_fst_singleton:
  "distinct (map fst zs) \<Longrightarrow> k \<in> set zs \<Longrightarrow> filter (\<lambda>x. fst k = fst x) zs = [k]"
proof (induction zs)
  case Nil
  then show ?case by simp
next
  case (Cons z zs)
  show ?case
  proof (cases "k = z")
    case True
    have "filter (\<lambda>x. fst z = fst x) zs = []"
      using Cons.prems(1) by (auto simp: filter_empty_conv image_iff)
    with True show ?thesis by simp
  next
    case False
    with Cons.prems have kin: "k \<in> set zs" by simp
    then have "fst k \<noteq> fst z" using Cons.prems(1) by (auto simp: image_iff)
    with Cons.IH kin Cons.prems(1) show ?thesis by simp
  qed
qed

lemma gather_launch_order:
  assumes "mset settled = mset (zip [0..<length xs] xs)"
  shows "gather settled = xs"
proof -
  let ?ys = "zip [0..<length xs] xs"
  have d: "distinct (map fst ?ys)" by simp
  have "mset (map fst settled) = mset (map fst ?ys)"
    using assms by (metis mset_map)
  then have ds: "distinct (map fst settled)"
    using d mset_eq_imp_distinct_iff by blast
  have "sort_key fst settled = ?ys"
  proof (rule properties_for_sort_key)
    show "mset ?ys = mset settled" using assms by simp
    show "sorted (map fst ?ys)" by simp
    fix k assume k: "k \<in> set ?ys"
    then have k': "k \<in> set settled" using assms by (metis mset_eq_setD)
    show "filter (\<lambda>x. fst k = fst x) ?ys = filter (\<lambda>x. fst k = fst x) settled"
      using filter_fst_singleton [OF d k] filter_fst_singleton [OF ds k'] by simp
  qed
  then show ?thesis by (simp add: gather_def)
qed

lemma collect_all_results:
  "fst (collect pairs) = concat (map (\<lambda>(q, b). branch_hits b) pairs)"
  by (induction pairs rule: collect.induct) (auto simp: Let_def split: prod.splits)

text \<open>
  Claim C7, as the code has it. The hits of the branches are concatenated in the order
  of the queries, whatever the order in which the branches settled. In the merged list
  before the cap every non-empty dedup key of a hit stands exactly once, the hit kept
  for a key is the first one with that key in the concatenation, and the hits keep their
  order. The result is that list cut to its first \<open>2 * limit\<close> entries (for a limit that
  is not negative), so a key beyond the cut is absent.
\<close>

theorem C7_merged_results:
  assumes "mset settled = mset (zip [0..<length branches] branches)"
  shows "fst (collect (zip valid_queries (gather settled)))
           = concat (map (\<lambda>(q, b). branch_hits b) (zip valid_queries branches))
       \<and> distinct (map dedup_key (dedup {} all_results))
       \<and> dedup_key ` set (dedup {} all_results)
           = {k \<in> dedup_key ` set all_results. k \<noteq> []}
       \<and> (\<forall>r \<in> set (dedup {} all_results).
             find (\<lambda>x. dedup_key x = dedup_key r) all_results = Some r)
       \<and> subseq (dedup {} all_results) all_results
       \<and> unique_results limit all_results = py_take (limit * 2) (dedup {} all_results)
       \<and> (0 \<le> limit \<longrightarrow> length (unique_results limit all_results) \<le> nat (2 * limit))"
proof -
  have "gather settled = branches"
    using assms by (rule gather_launch_order)
  then have "fst (collect (zip valid_queries (gather settled)))
      = concat (map (\<lambda>(q, b). branch_hits b) (zip valid_queries branches))"
    by (simp add: collect_all_results)
  moreover have "dedup_key ` set (dedup {} all_results)
      = {k \<in> dedup_key ` set all_results. k \<noteq> []}"
    by (simp add: dedup_keys)
  moreover have "\<forall>r \<in> set (dedup {} all_results).
      find (\<lambda>x. dedup_key x = dedup_key r) all_results = Some r"
    using dedup_first by blast
  moreover have "0 \<le> limit \<longrightarrow> length (unique_results limit all_results) \<le> nat (2 * limit)"
    using py_take_length [of "limit * 2" "dedup {} all_results"]
    by (simp add: unique_results_def mult.commute)
  ultimately show ?thesis
    by (simp add: dedup_distinct dedup_subseq unique_results_def)
qed

theorem C7_merged_results_witness:
  "mset [(Suc 0, Returned (SearchOk (ascii ''b'')
            [\<lparr>title = ascii ''second'', abstract = [], url = ascii ''http://x''\<rparr>])),
         (0, Returned (SearchOk (ascii ''a'')
            [\<lparr>title = ascii ''first'', abstract = [], url = ascii ''http://x''\<rparr>]))]
     = mset (zip [0..<length
         [Returned (SearchOk (ascii ''a'')
            [\<lparr>title = ascii ''first'', abstract = [], url = ascii ''http://x''\<rparr>]),
          Returned (SearchOk (ascii ''b'')
            [\<lparr>title = ascii ''second'', abstract = [], url = ascii ''http://x''\<rparr>])]]
         [Returned (SearchOk (ascii ''a'')
            [\<lparr>title = ascii ''first'', abstract = [], url = ascii ''http://x''\<rparr>]),
          Returned (SearchOk (ascii ''b'')
            [\<lparr>title = ascii ''second'', abstract = [], url = ascii ''http://x''\<rparr>])])
   \<and> (0::int) \<le> 5
   \<and> length (unique_results 5
        [\<lparr>title = ascii ''first'', abstract = [], url = ascii ''http://x''\<rparr>,
         \<lparr>title = ascii ''second'', abstract = [], url = ascii ''http://x''\<rparr>]) \<le> nat (2 * 5)
   \<and> find (\<lambda>x. dedup_key x
          = dedup_key \<lparr>title = ascii ''first'', abstract = [], url = ascii ''http://x''\<rparr>)
        [\<lparr>title = ascii ''first'', abstract = [], url = ascii ''http://x''\<rparr>,
         \<lparr>title = ascii ''second'', abstract = [], url = ascii ''http://x''\<rparr>]
       = Some \<lparr>title = ascii ''first'', abstract = [], url = ascii ''http://x''\<rparr>"
proof -
  have m: "mset [(Suc 0, Returned (SearchOk (ascii ''b'')
            [\<lparr>title = ascii ''second'', abstract = [], url = ascii ''http://x''\<rparr>])),
         (0, Returned (SearchOk (ascii ''a'')
            [\<lparr>title = ascii ''first'', abstract = [], url = ascii ''http://x''\<rparr>]))]
     = mset (zip [0..<length
         [Returned (SearchOk (ascii ''a'')
            [\<lparr>title = ascii ''first'', abstract = [], url = ascii ''http://x''\<rparr>]),
          Returned (SearchOk (ascii ''b'')
            [\<lparr>title = ascii ''second'', abstract = [], url = ascii ''http://x''\<rparr>])]]
         [Returned (SearchOk (ascii ''a'')
            [\<lparr>title = ascii ''first'', abstract = [], url = ascii ''http://x''\<rparr>]),
          Returned (SearchOk (ascii ''b'')
            [\<lparr>title = ascii ''second'', abstract = [], url = ascii ''http://x''\<rparr>])])"
    by (simp add: upt_rec)
  show ?thesis
    using m C7_merged_results [OF m, of "[ascii ''a'', ascii ''b'']"
      "[\<lparr>title = ascii ''first'', abstract = [], url = ascii ''http://x''\<rparr>,
        \<lparr>title = ascii ''second'', abstract = [], url = ascii ''http://x''\<rparr>]" 5]
    by (simp add: dedup_key_def ascii_def unique_results_def py_take_def)
qed

text \<open>
  The claim keeps, for each key, the hit of the branch that completed first. Here the
  branch of the second query settles first; both branches hold a hit with the same URL,
  and the hit kept is the one of the first query.
\<close>

theorem C7_settling_order_counterexample:
  "unique_results 5 (fst (collect (zip [ascii ''a'', ascii ''b'']
      (gather
        [(Suc 0, Returned (SearchOk (ascii ''b'')
            [\<lparr>title = ascii ''second'', abstract = [], url = ascii ''http://x''\<rparr>])),
         (0, Returned (SearchOk (ascii ''a'')
            [\<lparr>title = ascii ''first'', abstract = [], url = ascii ''http://x''\<rparr>]))]))))
     = [\<lparr>title = ascii ''first'', abstract = [], url = ascii ''http://x''\<rparr>]"
  by (simp add: gather_def unique_results_def py_take_def dedup_key_def ascii_def)

section \<open>Properties of title cleaning\<close>

lemma re_sub_no_match: "re_search r b s = None \<Longrightarrow> re_sub r repl b s = s"
  by (induction s arbitrary: b) (auto split: if_splits)

lemma foldl_re_sub_no_match:
  "list_all (\<lambda>pattern. re_search pattern True s = None) ps
   \<Longrightarrow> foldl (\<lambda>cleaned pattern. re_sub pattern [] True cleaned) s ps = s"
  by (induction ps) (simp_all add: re_sub_no_match)

lemma join_split_scan:
  "single_spaced s \<Longrightarrow> (w = [] \<longrightarrow> s = [] \<or> \<not> is_space (hd s))
   \<Longrightarrow> join_space (split_scan w s) = w @ s"
proof (induction s arbitrary: w)
  case Nil
  then show ?case by simp
next
  case (Cons c cs)
  show ?case
  proof (cases "is_space c")
    case True
    with Cons.prems have w: "w \<noteq> []" by auto
    from True Cons.prems(1) obtain d ds where cs: "cs = d # ds" and c: "c = 32"
      and d: "\<not> is_space d" and ss: "single_spaced cs"
      by (cases cs) auto
    have ih: "join_space (split_scan [] cs) = cs"
      using Cons.IH [of "[]"] ss d cs by simp
    then have ne: "split_scan [] cs \<noteq> []" using cs by auto
    then obtain x xs where x: "split_scan [] cs = x # xs" by (cases "split_scan [] cs") auto
    show ?thesis using True w ih x c by simp
  next
    case False
    have ss: "single_spaced cs" using Cons.prems(1) by (cases cs) auto
    show ?thesis using False Cons.IH [of "w @ [c]"] ss by simp
  qed
qed

lemma join_split: "ws_normal s \<Longrightarrow> join_space (str_split s) = s"
  using join_split_scan [of s "[]"]
  by (cases s) (auto simp: ws_normal_def str_split_def)

lemma clean_window_title_fixed: "is_clean s \<Longrightarrow> clean_window_title s = s"
proof (cases "s = []")
  case True
  then show ?thesis by (simp add: clean_window_title_def)
next
  case False
  assume c: "is_clean s"
  have f: "foldl (\<lambda>cleaned pattern. re_sub pattern [] True cleaned) s patterns_to_remove = s"
    using c by (simp add: is_clean_def foldl_re_sub_no_match)
  have j: "join_space (str_split s) = s"
    using c by (simp add: is_clean_def join_split)
  have p: "length (first_part title_separator s) \<le> length s"
    by (simp add: first_part_def split: option.splits)
  have t: "take 100 s = s" using c by (simp add: is_clean_def)
  show ?thesis
    using False p by (auto simp add: clean_window_title_def f j t Let_def)
qed

text \<open>The definitions that evaluate the patterns on a given title.\<close>

lemmas eval_rx = patterns_to_remove_def app_suffix_def dot_suffix_def lit_i_def ascii_def
  is_space_def is_dash_def any_char_def is_digit_def digit_ranges_def ignorecase_def
  case_variants_def upt_rec str_split_def

lemma is_clean_abc: "is_clean (ascii ''abc'')"
  by (simp add: is_clean_def ws_normal_def eval_rx)

text \<open>
  Claim C9. A title of at least three characters that is already clean, that is, one
  from which none of the removal steps of \<open>clean_window_title\<close> takes anything
  (\<open>is_clean\<close>), is returned unchanged.
\<close>

theorem C9_clean_title_unchanged:
  "3 \<le> length s \<Longrightarrow> is_clean s \<Longrightarrow> clean_window_title s = s"
  by (rule clean_window_title_fixed)

theorem C9_clean_title_unchanged_witness:
  "3 \<le> length (ascii ''abc'') \<and> is_clean (ascii ''abc'')
   \<and> clean_window_title (ascii ''abc'') = ascii ''abc''"
  using C9_clean_title_unchanged [of "ascii ''abc''"] is_clean_abc
  by (simp add: ascii_def)


section \<open>Properties of query generation\<close>

declare pad_queries.simps [simp del]

lemma pad_queries_eq:
  "pad_queries queries clean_title =
     (if clean_title = [] then queries
      else queries @ replicate (3 - length queries) clean_title)"
proof (induction queries clean_title rule: pad_queries.induct)
  case (1 queries clean_title)
  show ?case
  proof (cases "length queries < 3 \<and> clean_title \<noteq> []")
    case True
    then have "3 - length queries = Suc (3 - length (queries @ [clean_title]))" by auto
    with True "1" show ?thesis
      by (subst pad_queries.simps) (simp add: replicate_app_Cons_same)
  next
    case False
    then show ?thesis by (subst pad_queries.simps) auto
  qed
qed

lemma collect_queries_length:
  "length queries < 3 \<Longrightarrow> length (collect_queries queries lines) \<le> 3"
  by (induction lines arbitrary: queries) (auto simp: Let_def)

lemma collect_queries_usable:
  "list_all (\<lambda>q. 2 \<le> length q) queries
   \<Longrightarrow> list_all (\<lambda>q. 2 \<le> length q) (collect_queries queries lines)"
  by (induction lines arbitrary: queries) (simp_all add: Let_def)

lemma reply_queries_usable: "q \<in> set (reply_queries content) \<Longrightarrow> 2 \<le> length q"
  using collect_queries_usable [of "[]"] by (simp add: reply_queries_def list_all_iff)

lemma generate_diverse_queries_failed:
  assumes "assistant_failed response"
  shows "generate_diverse_queries response t =
           (case response of
              Raised e \<Rightarrow> replicate 3 (clean_window_title t)
            | Returned content \<Rightarrow>
                reply_queries content
                @ (if clean_window_title t = [] then []
                   else replicate (3 - length (reply_queries content)) (clean_window_title t)))"
proof (cases response)
  case (Returned content)
  with assms have "length (reply_queries content) < 3" by simp
  then show ?thesis
    using Returned by (simp add: generate_diverse_queries_def pad_queries_eq Let_def)
next
  case (Raised e)
  then show ?thesis
    by (simp add: generate_diverse_queries_def Let_def numeral_3_eq_3)
qed

lemma pipeline_stops_at_keywords:
  "(\<exists>w. fetch_window_context_content limit china_region (Returned (Some raw)) response settled
          = ContextFailure no_valid_keywords w None)
   = no_valid_query (generate_diverse_queries response (clean_window_title raw))"
proof -
  let ?qs = "generate_diverse_queries response (clean_window_title raw)"
  have a: "(?qs = [] \<or> list_all (\<lambda>q. q = [] \<or> length q < 2) ?qs) = no_valid_query ?qs"
    by (auto simp: no_valid_query_def list_all_iff)
  have b: "\<not> no_valid_query ?qs \<Longrightarrow> filter (\<lambda>q. q \<noteq> [] \<and> 2 \<le> length q) ?qs \<noteq> []"
    by (fastforce simp: no_valid_query_def list_all_iff filter_empty_conv not_less)
  have c: "no_valid_keywords \<noteq> no_search_results"
    by (simp add: no_valid_keywords_def no_search_results_def)
  show ?thesis
  proof (cases "no_valid_query ?qs")
    case True
    then show ?thesis
      using a by (simp add: fetch_window_context_content_def get_active_window_title_def Let_def)
  next
    case False
    then show ?thesis
      using a b c
      by (auto simp add: fetch_window_context_content_def get_active_window_title_def Let_def
          split: prod.splits)
  qed
qed

text \<open>
  Claim C6, as the code has it. When the assistant call fails, query generation returns
  three copies of the cleaned title (after an exception), or the usable lines of the
  reply followed by copies of the cleaned title up to three candidates, where the cleaned
  title is \<open>clean_window_title\<close> of the title given to query generation. When that
  cleaned title is not empty these are three non-empty candidates; when it is empty they
  are three empty strings, or the usable lines alone. The pipeline hands query generation
  the raw title already cleaned once, and it stops with the error \<open>no_valid_keywords\<close>
  exactly when no candidate has two characters, which after a failed assistant call needs
  a cleaned title of fewer than two characters.
\<close>

theorem C6_queries_when_assistant_fails:
  assumes "assistant_failed response"
  shows "generate_diverse_queries response t =
           (case response of
              Raised e \<Rightarrow> replicate 3 (clean_window_title t)
            | Returned content \<Rightarrow>
                reply_queries content
                @ (if clean_window_title t = [] then []
                   else replicate (3 - length (reply_queries content)) (clean_window_title t)))
       \<and> (clean_window_title t \<noteq> []
            \<longrightarrow> length (generate_diverse_queries response t) = 3
              \<and> [] \<notin> set (generate_diverse_queries response t))
       \<and> (no_valid_query (generate_diverse_queries response t)
            \<longrightarrow> length (clean_window_title t) < 2)
       \<and> ((\<exists>w. fetch_window_context_content limit china_region (Returned (Some raw)) response
                  settled = ContextFailure no_valid_keywords w None)
            = no_valid_query (generate_diverse_queries response (clean_window_title raw)))"
proof -
  note g = generate_diverse_queries_failed [OF assms, of t]
  have 1: "length (generate_diverse_queries response t) = 3
      \<and> [] \<notin> set (generate_diverse_queries response t)"
    if "clean_window_title t \<noteq> []"
  proof (cases response)
    case (Returned content)
    with assms have "length (reply_queries content) < 3" by simp
    moreover have "[] \<notin> set (reply_queries content)"
      using reply_queries_usable by fastforce
    ultimately show ?thesis using g that Returned by auto
  next
    case (Raised e)
    then show ?thesis using g that by simp
  qed
  have 2: "length (clean_window_title t) < 2"
    if "no_valid_query (generate_diverse_queries response t)"
  proof (cases response)
    case (Returned content)
    with assms have l: "length (reply_queries content) < 3" by simp
    have "\<forall>q \<in> set (reply_queries content). length q < 2"
      using that g Returned by (auto simp: no_valid_query_def list_all_iff)
    then have e: "reply_queries content = []"
      using reply_queries_usable [of _ content]
      by (cases "reply_queries content") fastforce+
    show ?thesis
    proof (cases "clean_window_title t = []")
      case True
      then show ?thesis by simp
    next
      case False
      then show ?thesis
        using that g Returned e by (simp add: no_valid_query_def numeral_3_eq_3)
    qed
  next
    case (Raised e)
    then show ?thesis using g that by (simp add: no_valid_query_def numeral_3_eq_3)
  qed
  show ?thesis
    using g 1 2 pipeline_stops_at_keywords by blast
qed

lemma clean_dash_digits_py: "clean_window_title (ascii ''- 123.py'') = ascii ''- 123''"
  by (simp add: clean_window_title_def first_part_def title_separator_def str_strip_def
      Let_def eval_rx)

lemma clean_dash_digits: "clean_window_title (ascii ''- 123'') = []"
  by (simp add: clean_window_title_def first_part_def title_separator_def str_strip_def
      Let_def eval_rx)

theorem C6_queries_when_assistant_fails_witness:
  "assistant_failed (Raised (Exn OtherException (ascii ''timeout'')))
   \<and> clean_window_title (ascii ''abc'') \<noteq> []
   \<and> generate_diverse_queries (Raised (Exn OtherException (ascii ''timeout''))) (ascii ''abc'')
       = [ascii ''abc'', ascii ''abc'', ascii ''abc'']
   \<and> \<not> no_valid_query
         (generate_diverse_queries (Raised (Exn OtherException (ascii ''timeout'')))
            (ascii ''abc''))"
  using C6_queries_when_assistant_fails
      [of "Raised (Exn OtherException (ascii ''timeout''))" "ascii ''abc''"]
    clean_window_title_fixed [OF is_clean_abc]
  by (simp add: numeral_3_eq_3 no_valid_query_def ascii_def)

text \<open>
  The title \<open>- 123.py\<close> is cleaned to \<open>- 123\<close>, five characters. Query generation
  cleans that again, to the empty string, so after a failed assistant call the three
  candidates are empty and the pipeline stops with a failure. On the empty title query
  generation gives three empty candidates as well.
\<close>

theorem C6_cleaned_title_counterexample:
  "3 \<le> length (clean_window_title (ascii ''- 123.py''))
   \<and> assistant_failed (Raised (Exn OtherException (ascii ''timeout'')))
   \<and> generate_diverse_queries (Raised (Exn OtherException (ascii ''timeout'')))
         (clean_window_title (ascii ''- 123.py'')) = [[], [], []]
   \<and> fetch_window_context_content 5 False (Returned (Some (ascii ''- 123.py'')))
         (Raised (Exn OtherException (ascii ''timeout''))) []
       = ContextFailure no_valid_keywords (Some (ascii ''- 123.py'')) None
   \<and> generate_diverse_queries (Raised (Exn OtherException (ascii ''timeout''))) [] = [[], [], []]"
  by (simp add: clean_dash_digits_py clean_dash_digits generate_diverse_queries_def
      fetch_window_context_content_def get_active_window_title_def)
     (simp add: ascii_def clean_window_title_def)


section \<open>Properties of the Reddit fetchers\<close>

lemma comprehension_kept:
  "comprehension rs = Inr ys
   \<Longrightarrow> map (\<lambda>y. Inr (Some y)) ys = filter (\<lambda>r. r \<noteq> Inr None) rs"
  by (induction rs arbitrary: ys rule: comprehension.induct) (auto split: sum.splits)

lemma comprehension_no_exception:
  "comprehension rs = Inr ys \<Longrightarrow> r \<in> set rs \<Longrightarrow> \<exists>v. r = Inr v"
  by (induction rs arbitrary: ys rule: comprehension.induct) (auto split: sum.splits)

lemma reddit_post_none:
  "reddit_post L item = Inr v \<Longrightarrow> (v = None) = marked_over_18 item"
  by (auto simp: reddit_post_def marked_over_18_def split: sum.splits json.splits if_splits)

lemma reddit_posts_unmarked:
  assumes "comprehension (map (reddit_post L) items) = Inr posts"
  shows "map (\<lambda>p. Inr (Some p)) posts
           = map (reddit_post L) (filter (\<lambda>i. \<not> marked_over_18 i) items)"
proof -
  have "filter (\<lambda>r. r \<noteq> Inr None) (map (reddit_post L) items)
      = map (reddit_post L) (filter (\<lambda>i. \<not> marked_over_18 i) items)"
    unfolding filter_map
  proof (rule arg_cong [where f = "map (reddit_post L)"], rule filter_cong [OF refl])
    fix i assume "i \<in> set items"
    then obtain v where "reddit_post L i = Inr v"
      using comprehension_no_exception [OF assms, of "reddit_post L i"] by auto
    then show "((\<lambda>r. r \<noteq> Inr None) \<circ> reddit_post L) i = (\<not> marked_over_18 i)"
      using reddit_post_none by fastforce
  qed
  then show ?thesis using comprehension_kept [OF assms] by simp
qed

text \<open>
  Claim C10. When either Reddit fetcher succeeds, its posts are, in order, the posts
  built from the children of the listing (cut to \<open>limit\<close>) that are not marked
  \<open>over_18\<close>: a marked child gives no post.
\<close>

theorem C10_reddit_excludes_over_18:
  assumes "fetch_reddit_popular L limit response = Success k posts
         \<or> fst (fetch_reddit_personal_dynamic L limit reddit_cookies response) = Success k posts"
  shows "\<exists>data items. response = Returned data \<and> reddit_children limit data = Inr items
           \<and> map (\<lambda>p. Inr (Some p)) posts
               = map (reddit_post L) (filter (\<lambda>i. \<not> marked_over_18 i) items)"
proof -
  have "\<exists>data items. response = Returned data \<and> reddit_children limit data = Inr items
      \<and> comprehension (map (reddit_post L) items) = Inr posts"
    using assms
    by (auto simp: fetch_reddit_popular_def fetch_reddit_personal_dynamic_def reddit_posts_def
        Let_def split: outcome.splits sum.splits if_splits)
  then show ?thesis using reddit_posts_unmarked by blast
qed

text \<open>The definitions that evaluate the accessors on a given payload.\<close>

lemmas eval_json = ascii_def lookup_def dict_get.simps py_slice.simps py_iter.simps
  py_take_def truthy.simps

theorem C10_reddit_excludes_over_18_witness:
  "fetch_reddit_popular example_lib 5
     (Returned (JDict [(ascii ''data'', JDict [(ascii ''children'', JList
        [JDict [(ascii ''data'', JDict [(ascii ''title'', JStr (ascii ''a'')),
                                        (ascii ''over_18'', JBool True)])],
         JDict [(ascii ''data'', JDict [(ascii ''title'', JStr (ascii ''b'')),
                                        (ascii ''score'', JInt 7)])]])])]))
     = Success (ascii ''posts'')
         [JDict [(ascii ''title'', JStr (ascii ''b'')),
                 (ascii ''subreddit'', JStr (ascii ''r/'')),
                 (ascii ''score'', JStr (ascii ''7'')),
                 (ascii ''url'', JStr (ascii ''https://www.reddit.com''))]]
   \<and> marked_over_18
        (JDict [(ascii ''data'', JDict [(ascii ''title'', JStr (ascii ''a'')),
                                       (ascii ''over_18'', JBool True)])])
   \<and> (\<exists>data items.
         reddit_children 5 data = Inr items
         \<and> map (\<lambda>p. Inr (Some p))
               [JDict [(ascii ''title'', JStr (ascii ''b'')),
                       (ascii ''subreddit'', JStr (ascii ''r/'')),
                       (ascii ''score'', JStr (ascii ''7'')),
                       (ascii ''url'', JStr (ascii ''https://www.reddit.com''))]]
             = map (reddit_post example_lib) (filter (\<lambda>i. \<not> marked_over_18 i) items))"
proof -
  have h: "fetch_reddit_popular example_lib 5
     (Returned (JDict [(ascii ''data'', JDict [(ascii ''children'', JList
        [JDict [(ascii ''data'', JDict [(ascii ''title'', JStr (ascii ''a'')),
                                        (ascii ''over_18'', JBool True)])],
         JDict [(ascii ''data'', JDict [(ascii ''title'', JStr (ascii ''b'')),
                                        (ascii ''score'', JInt 7)])]])])]))
     = Success (ascii ''posts'')
         [JDict [(ascii ''title'', JStr (ascii ''b'')),
                 (ascii ''subreddit'', JStr (ascii ''r/'')),
                 (ascii ''score'', JStr (ascii ''7'')),
                 (ascii ''url'', JStr (ascii ''https://www.reddit.com''))]]"
    by (simp add: fetch_reddit_popular_def reddit_posts_def reddit_children_def
        reddit_post_def format_score_def show_int_def eval_json)
  have m: "marked_over_18
        (JDict [(ascii ''data'', JDict [(ascii ''title'', JStr (ascii ''a'')),
                                       (ascii ''over_18'', JBool True)])])"
    by (simp add: marked_over_18_def eval_json)
  from C10_reddit_excludes_over_18 [OF disjI1 [OF h]] h m show ?thesis by blast
qed


section \<open>Properties of the Weibo hot search\<close>

lemma fetch_weibo_trending_primary:
  "\<not> primary_denied limit primary
   \<Longrightarrow> \<exists>page trending_list. primary = Returned page
         \<and> weibo_rows limit 0 [] (td_items page) = Inr trending_list
         \<and> fetch_weibo_trending L limit primary fallback
             = Success (ascii ''trending'') trending_list"
  by (cases primary)
     (auto simp: primary_denied_def fetch_weibo_trending_def split: sum.splits)

text \<open>
  Claim C3. When the desktop endpoint denies the hot search (\<open>primary_denied\<close>), the
  result of \<open>fetch_weibo_trending\<close> is the result of the fallback on the AJAX endpoint,
  whatever the primary attempt gave: nothing of the primary failure reaches the caller.
\<close>

theorem C3_weibo_fallback_on_denial:
  "primary_denied limit primary
   \<Longrightarrow> fetch_weibo_trending L limit primary fallback
       = fetch_weibo_trending_fallback L limit fallback"
  by (cases primary)
     (auto simp: primary_denied_def fetch_weibo_trending_def split: sum.splits)

theorem C3_weibo_fallback_on_denial_witness:
  "primary_denied 10
     (Returned \<lparr>final_url = ascii ''https://passport.weibo.com/'', td_items = []\<rparr>)
   \<and> fetch_weibo_trending example_lib 10
        (Returned \<lparr>final_url = ascii ''https://passport.weibo.com/'', td_items = []\<rparr>)
        (Returned (JDict [(ascii ''ok'', JInt 1),
           (ascii ''data'', JDict [(ascii ''realtime'',
              JList [JDict [(ascii ''word'', JStr (ascii ''x''))]])])]))
      = Success (ascii ''trending'')
          [JDict [(ascii ''word'', JStr (ascii ''x'')), (ascii ''raw_hot'', JInt 0),
                  (ascii ''note'', JStr []), (ascii ''rank'', JInt 0),
                  (ascii ''url'', JStr (ascii ''https://s.weibo.com/weibo?q=''))]]"
proof -
  have d: "primary_denied 10
     (Returned \<lparr>final_url = ascii ''https://passport.weibo.com/'', td_items = []\<rparr>)"
    by (simp add: primary_denied_def startswith_def ascii_def)
  have f: "fetch_weibo_trending_fallback example_lib 10
        (Returned (JDict [(ascii ''ok'', JInt 1),
           (ascii ''data'', JDict [(ascii ''realtime'',
              JList [JDict [(ascii ''word'', JStr (ascii ''x''))]])])]))
      = Success (ascii ''trending'')
          [JDict [(ascii ''word'', JStr (ascii ''x'')), (ascii ''raw_hot'', JInt 0),
                  (ascii ''note'', JStr []), (ascii ''rank'', JInt 0),
                  (ascii ''url'', JStr (ascii ''https://s.weibo.com/weibo?q=''))]]"
    by (simp add: fetch_weibo_trending_fallback_def weibo_fallback_rows_def
        weibo_fallback_row_def lookup2_def example_lib_def eval_json)
  show ?thesis
    using d f C3_weibo_fallback_on_denial [OF d, of example_lib] by simp
qed


section \<open>Properties of the personal fetchers\<close>

text \<open>
  Claim C4. A personal fetcher whose cookie lookup gives the empty dict (for Weibo also
  one whose cookies hold no non-empty \<open>SUB\<close> token, read under the name \<open>SUB\<close> or
  \<open>sub\<close>) returns a failure with a non-empty error message and requests nothing.
\<close>

theorem C4_no_cookies_no_request:
  "(bilibili_cookies = []
      \<longrightarrow> (\<exists>m. fetch_bilibili_personal_dynamic L limit installed bilibili_cookies r1
                 = (Failure m, []) \<and> m \<noteq> []))
   \<and> (weibo_cookies = [] \<or> weibo_sub weibo_cookies = None \<or> weibo_sub weibo_cookies = Some []
      \<longrightarrow> (\<exists>m. fetch_weibo_personal_dynamic L limit weibo_cookies r2
                 = (Failure m, []) \<and> m \<noteq> []))
   \<and> (reddit_cookies = []
      \<longrightarrow> (\<exists>m. fetch_reddit_personal_dynamic L limit reddit_cookies r3
                 = (Failure m, []) \<and> m \<noteq> []))
   \<and> (twitter_cookies = []
      \<longrightarrow> (\<exists>m. fetch_twitter_personal_dynamic L limit twitter_cookies r4 r5
                 = (Failure m, []) \<and> m \<noteq> []))"
  by (simp add: fetch_bilibili_personal_dynamic_def get_bilibili_credential_def
      bilibili_no_credential_def fetch_weibo_personal_dynamic_def weibo_no_cookies_def
      weibo_no_sub_def fetch_reddit_personal_dynamic_def reddit_no_cookies_def
      fetch_twitter_personal_dynamic_def twitter_no_cookies_def)

theorem C4_no_cookies_no_request_witness:
  "weibo_sub [(ascii ''SUBP'', ascii ''x'')] = None
   \<and> fetch_weibo_personal_dynamic example_lib 10 [(ascii ''SUBP'', ascii ''x'')]
        (Returned \<lparr>status_code = 200, body = Returned (JDict [(ascii ''ok'', JInt 1)])\<rparr>)
       = (Failure weibo_no_sub, [])
   \<and> weibo_no_sub \<noteq> []
   \<and> fetch_reddit_personal_dynamic example_lib 10 [] (Returned (JDict []))
       = (Failure reddit_no_cookies, [])
   \<and> fetch_twitter_personal_dynamic example_lib 10 []
        (Returned \<lparr>status_code = 200, body = Returned (JList [])\<rparr>)
        (Returned \<lparr>res_url = [], tweet_texts = [], screen_names = []\<rparr>)
       = (Failure twitter_no_cookies, [])
   \<and> fetch_bilibili_personal_dynamic example_lib 10 True [] (Returned (JDict []))
       = (Failure bilibili_no_credential, [])"
proof -
  have s: "weibo_sub [(ascii ''SUBP'', ascii ''x'')] = None"
    by (simp add: weibo_sub_def ascii_def)
  show ?thesis
    using s C4_no_cookies_no_request [of "[]" example_lib 10 True "Returned (JDict [])"
        "[(ascii ''SUBP'', ascii ''x'')]"
        "Returned \<lparr>status_code = 200, body = Returned (JDict [(ascii ''ok'', JInt 1)])\<rparr>"
        "[]" "Returned (JDict [])" "[]"
        "Returned \<lparr>status_code = 200, body = Returned (JList [])\<rparr>"
        "Returned \<lparr>res_url = [], tweet_texts = [], screen_names = []\<rparr>"]
    by (simp add: fetch_bilibili_personal_dynamic_def get_bilibili_credential_def
        fetch_weibo_personal_dynamic_def weibo_no_sub_def fetch_reddit_personal_dynamic_def
        fetch_twitter_personal_dynamic_def)
qed


section \<open>The limit of the fetchers\<close>

























end
